theory Spec2Isabelle
  imports Main "HOL-Library.Sublist"
begin

section \<open>Strings\<close>

text \<open>
  A Go string is modelled as the list of its characters; a \<^typ>\<open>char\<close> stands for the
  code point of the same number, so the white space of \<^verbatim>\<open>strings.TrimSpace\<close> that
  fits the type is tab, line feed, vertical tab, form feed, carriage return, space,
  U+0085 and U+00A0.
\<close>

definition newline :: char where
  "newline = CHR 0x0A"

definition isSpace :: "char \<Rightarrow> bool" where
  "isSpace c = (c \<in> set [CHR 0x09, CHR 0x0A, CHR 0x0B, CHR 0x0C, CHR 0x0D, CHR 0x20, CHR 0x85, CHR 0xA0])"

definition TrimSpace :: "string \<Rightarrow> string" where
  "TrimSpace s = rev (dropWhile isSpace (rev (dropWhile isSpace s)))"


section \<open>The regular expressions of package regexp\<close>

text \<open>
  The program builds its patterns with \<^verbatim>\<open>regexp.MustCompile\<close> and reads them with
  \<^verbatim>\<open>FindStringSubmatch\<close>. The patterns of the source use literal characters,
  \<^verbatim>\<open>.\<close>, \<^verbatim>\<open>.*\<close>, \<^verbatim>\<open>.*?\<close>, \<^verbatim>\<open>.{n}\<close> and capture groups that are not nested. This
  fragment of the syntax, with the flag \<^verbatim>\<open>(?i)\<close> added, is compiled to a list of instructions; a pattern text outside
  the fragment compiles to \<^term>\<open>None\<close>, and the model says nothing about it.
  The machine name is spliced into one pattern unquoted, so it goes through the same
  compiler. The limits of the package on the size of a pattern are left out.
\<close>

datatype inst = Lit char | AnyOf string | Dot | StarGreedy | StarLazy | Open | Close

type_synonym regexp = "inst list"

definition isDigit :: "char \<Rightarrow> bool" where
  "isDigit c = (c \<in> set ''0123456789'')"

definition isWord :: "char \<Rightarrow> bool" where
  "isWord c = (c \<in> set ''0123456789ABCDEFGHIJKLMNOPQRSTUVWXYZ_abcdefghijklmnopqrstuvwxyz'')"

definition number :: "string \<Rightarrow> nat" where
  "number ds = foldl (\<lambda>n d. 10 * n + (of_char d - 48)) 0 ds"

text \<open>Operators of the syntax that the fragment leaves out: backslash, repetition
  of anything but a dot, alternation, character classes and anchors.\<close>

definition operators :: string where
  "operators = [CHR 0x5C, CHR ''*'', CHR ''+'', CHR ''?'', CHR ''|'', CHR ''['', CHR '']'', CHR ''^'', CHR ''$'']"

text \<open>
  The flag \<^verbatim>\<open>(?i)\<close> makes the literals after it, up to the end of the group in which
  it stands, match without regard to case. The characters that a literal then matches
  are the letter in both cases for an ASCII letter and the character itself for any
  other ASCII character; a literal outside ASCII under the flag is left out of the
  fragment.
\<close>

definition folds :: "char \<Rightarrow> string" where
  "folds c =
     (if c \<in> set ''abcdefghijklmnopqrstuvwxyz'' then [char_of (of_char c - (32 :: nat)), c]
      else if c \<in> set ''ABCDEFGHIJKLMNOPQRSTUVWXYZ'' then [c, char_of (of_char c + (32 :: nat))]
      else [c])"

definition literal :: "bool \<Rightarrow> char \<Rightarrow> inst option" where
  "literal nocase c =
     (if \<not> nocase then Some (Lit c)
      else if of_char c < (128 :: nat) then Some (AnyOf (folds c))
      else None)"

text \<open>
  \<open>compile outer nocase cs\<close> reads the pattern text \<open>cs\<close>; \<open>nocase\<close> tells whether the flag
  \<^verbatim>\<open>(?i)\<close> is in force, and \<open>outer\<close> whether it was when the group being read opened:
  the closing parenthesis restores that. A whole pattern starts with both off.
\<close>

function compile :: "bool \<Rightarrow> bool \<Rightarrow> string \<Rightarrow> regexp option" where
  "compile outer nocase [] = Some []"
| "compile outer nocase (c # cs) =
    (if c = CHR ''.'' then
       (if prefix ''*?'' cs then map_option ((#) StarLazy) (compile outer nocase (drop 2 cs))
        else if prefix ''*'' cs then map_option ((#) StarGreedy) (compile outer nocase (drop 1 cs))
        else if prefix ''{'' cs \<and> takeWhile isDigit (drop 1 cs) \<noteq> [] then
          (if prefix ''}'' (dropWhile isDigit (drop 1 cs))
              \<and> number (takeWhile isDigit (drop 1 cs)) \<le> 1000
           then map_option ((@) (replicate (number (takeWhile isDigit (drop 1 cs))) Dot))
                  (compile outer nocase (drop 1 (dropWhile isDigit (drop 1 cs))))
           else None)
        else map_option ((#) Dot) (compile outer nocase cs))
     else if c = CHR ''('' then
       (if prefix ''?P<'' cs then
          (if takeWhile isWord (drop 3 cs) \<noteq> [] \<and> prefix ''>'' (dropWhile isWord (drop 3 cs))
           then map_option ((#) Open) (compile nocase nocase (drop 1 (dropWhile isWord (drop 3 cs))))
           else None)
        else if prefix ''?i)'' cs then compile outer True (drop 3 cs)
        else if prefix ''?'' cs then None
        else map_option ((#) Open) (compile nocase nocase cs))
     else if c = CHR '')'' then map_option ((#) Close) (compile outer outer cs)
     else if c = CHR ''{'' then
       (if cs \<noteq> [] \<and> isDigit (hd cs) then None
        else (case literal nocase c of
                None \<Rightarrow> None
              | Some i \<Rightarrow> map_option ((#) i) (compile outer nocase cs)))
     else if c \<in> set operators then None
     else (case literal nocase c of
             None \<Rightarrow> None
           | Some i \<Rightarrow> map_option ((#) i) (compile outer nocase cs)))"
  by pat_completeness auto
termination
proof (relation "measure (\<lambda>(outer, nocase, cs). length cs)")
  fix c :: char and cs :: string
  have a: "length (dropWhile isDigit (drop 1 cs)) \<le> length cs"
    using length_dropWhile_le [of isDigit "drop 1 cs"] by simp
  have b: "length (dropWhile isWord (drop 3 cs)) \<le> length cs"
    using length_dropWhile_le [of isWord "drop 3 cs"] by simp
  show "((outer, nocase, drop 1 (dropWhile isDigit (drop 1 cs))), (outer, nocase, c # cs))
          \<in> measure (\<lambda>(outer, nocase, cs). length cs)" for outer nocase :: bool
    using a by simp
  show "((nocase, nocase, drop 1 (dropWhile isWord (drop 3 cs))), (outer, nocase, c # cs))
          \<in> measure (\<lambda>(outer, nocase, cs). length cs)" for outer nocase :: bool
    using b by simp
qed simp_all

text \<open>Groups must be closed and may not be nested: the captures below are read off
  the marks in the order in which the groups open and close.\<close>

fun groups_ok :: "bool \<Rightarrow> regexp \<Rightarrow> bool" where
  "groups_ok inside [] = (\<not> inside)"
| "groups_ok inside (Open # p) = (\<not> inside \<and> groups_ok True p)"
| "groups_ok inside (Close # p) = (inside \<and> groups_ok False p)"
| "groups_ok inside (_ # p) = groups_ok inside p"

definition MustCompile :: "string \<Rightarrow> regexp option" where
  "MustCompile str =
     (case compile False False str of
        None \<Rightarrow> None
      | Some p \<Rightarrow> if groups_ok False p then Some p else None)"

text \<open>
  Matching at one position is the backtracking search whose first success the package
  promises (leftmost-first): a greedy star tries one more character before it tries the
  rest of the pattern, a lazy star the other way round; a dot takes any character but a
  line feed, a literal under \<^verbatim>\<open>(?i)\<close> one of its characters. \<open>exec p n s ms\<close> runs \<open>p\<close> on \<open>s\<close>, \<open>n\<close> characters into the match, and
  returns the positions at which groups opened and closed, then the end of the match.
\<close>

fun exec :: "regexp \<Rightarrow> nat \<Rightarrow> string \<Rightarrow> nat list \<Rightarrow> nat list option" where
  "exec [] n s ms = Some (ms @ [n])"
| "exec (Lit c # p) n [] ms = None"
| "exec (Lit c # p) n (x # xs) ms = (if x = c then exec p (Suc n) xs ms else None)"
| "exec (Dot # p) n [] ms = None"
| "exec (Dot # p) n (x # xs) ms = (if x = newline then None else exec p (Suc n) xs ms)"
| "exec (Open # p) n s ms = exec p n s (ms @ [n])"
| "exec (Close # p) n s ms = exec p n s (ms @ [n])"
| "exec (StarGreedy # p) n [] ms = exec p n [] ms"
| "exec (StarGreedy # p) n (x # xs) ms =
     (if x = newline then exec p n (x # xs) ms
      else (case exec (StarGreedy # p) (Suc n) xs ms of
              Some r \<Rightarrow> Some r
            | None \<Rightarrow> exec p n (x # xs) ms))"
| "exec (StarLazy # p) n [] ms = exec p n [] ms"
| "exec (StarLazy # p) n (x # xs) ms =
     (case exec p n (x # xs) ms of
        Some r \<Rightarrow> Some r
      | None \<Rightarrow> if x = newline then None else exec (StarLazy # p) (Suc n) xs ms)"
| "exec (AnyOf cs # p) n [] ms = None"
| "exec (AnyOf cs # p) n (x # xs) ms = (if x \<in> set cs then exec p (Suc n) xs ms else None)"

text \<open>The leftmost position at which the pattern matches: the text from there on, and
  the marks of the match.\<close>

fun search :: "regexp \<Rightarrow> string \<Rightarrow> (string \<times> nat list) option" where
  "search p [] = map_option (Pair []) (exec p 0 [] [])"
| "search p (x # xs) =
     (case exec p 0 (x # xs) [] of
        Some ms \<Rightarrow> Some (x # xs, ms)
      | None \<Rightarrow> search p xs)"

fun groups :: "string \<Rightarrow> nat list \<Rightarrow> string list" where
  "groups s (a # b # ms) = take (b - a) (drop a s) # groups s ms"
| "groups s _ = []"

text \<open>The result is the whole match followed by the text of each group; the empty
  list stands for Go's nil slice.\<close>

definition FindStringSubmatch :: "regexp \<Rightarrow> string \<Rightarrow> string list" where
  "FindStringSubmatch re s =
     (case search re s of
        None \<Rightarrow> []
      | Some (t, ms) \<Rightarrow> take (last ms) t # groups t (butlast ms))"


section \<open>The types of vrealizetypes.go\<close>

record GetBearerTokenRequest =
  Username :: string
  Password :: string
  Tenant :: string

record GetBearerTokenResponse =
  Expires :: string
  ID :: string
  Tenant' :: string


section \<open>The world the program runs in\<close>

text \<open>
  A request as \<^verbatim>\<open>http.NewRequest\<close> and the header calls build it. The body is either
  absent, the token request that \<^verbatim>\<open>json.Marshal\<close> encodes, or the bytes of a string.
\<close>

datatype payload = NoBody | JSON GetBearerTokenRequest | Bytes string

record request =
  Method :: string
  URL :: string
  ReqHeader :: "(string \<times> string) list"
  ReqBody :: payload

record response =
  StatusCode :: int
  Header :: "string \<rightharpoonup> string"
  Body :: string

text \<open>The result of \<^verbatim>\<open>os.Stat\<close>: an error that \<^verbatim>\<open>os.IsNotExist\<close> recognises, another
  error (the file info is nil then), or the file info, of which the run asks whether it
  is a directory.\<close>

datatype stat = NotExist | StatError | FileInfo bool

text \<open>
  What the run reads from outside: the settings as \<^verbatim>\<open>viper.GetString\<close> sees them (config
  file and command line merged), the config file in use, \<^verbatim>\<open>os.Stat\<close>, whether
  \<^verbatim>\<open>http.NewRequest\<close> accepts a URL, the error of \<^verbatim>\<open>ParseForm\<close>, the answer of
  \<^verbatim>\<open>client.Do\<close> to the request sent after \<open>n\<close> earlier ones (a response, an error, or
  both), and \<^verbatim>\<open>json.Unmarshal\<close> into the token response.
\<close>

record env =
  viper :: "string \<rightharpoonup> string"
  ConfigFileUsed :: string
  Stat :: "string \<Rightarrow> stat"
  ParseURL :: "string \<Rightarrow> bool"
  ParseForm :: "request \<Rightarrow> string option"
  Do :: "nat \<Rightarrow> request \<Rightarrow> response option \<times> string option"
  Unmarshal :: "string \<Rightarrow> string + GetBearerTokenResponse"

text \<open>The command-line flag variables that the run reads.\<close>

record flags =
  dryRun :: bool
  keepExisting :: bool
  machineName :: string
  trace :: bool

text \<open>What the run does to the outside: it sleeps (seconds), sends a request, or
  writes a line to the log.\<close>

datatype event = Slept nat | Sent request | Logged string

fun requests :: "event list \<Rightarrow> request list" where
  "requests [] = []"
| "requests (Sent r # es) = r # requests es"
| "requests (_ # es) = requests es"

fun io :: "event list \<Rightarrow> event list" where
  "io [] = []"
| "io (Logged _ # es) = io es"
| "io (e # es) = e # io es"

text \<open>
  How a call ends: it returns, \<^verbatim>\<open>log.Fatalf\<close> ends the process, a run-time panic ends
  it, or it reaches a pattern outside the modelled fragment. The diagnostics of
  \<^verbatim>\<open>log.Fatalf\<close> are kept by their format and arguments: \<^verbatim>\<open>zero-length string\<close>,
  \<^verbatim>\<open>Error: %s\<close>, \<^verbatim>\<open>Unable to find configfile\<close>, \<^verbatim>\<open>Unexpected HTTP response status code\<close>,
  \<^verbatim>\<open>Unable to find Catalog Resource id for virtual machine\<close>,
  \<^verbatim>\<open>Unable to find Create Snapshot Action id\<close> and \<^verbatim>\<open>Snapshot request failed\<close>.
\<close>

datatype fatal =
    ZeroLengthString string
  | Error string
  | ConfigFileNotFound string
  | UnexpectedStatus int string
  | ResourceNotFound string
  | ActionNotFound
  | SnapshotFailed

datatype panic = NilDereference | IndexOutOfRange

datatype 'a result = Ok 'a | Fatal fatal | Panic panic | Unmodelled

text \<open>The exit status of the process: 0 when the root command returns, 1 after
  \<^verbatim>\<open>log.Fatalf\<close>, 2 after a panic.\<close>

fun exitStatus :: "'a result \<Rightarrow> nat option" where
  "exitStatus (Ok _) = Some 0"
| "exitStatus (Fatal _) = Some 1"
| "exitStatus (Panic _) = Some 2"
| "exitStatus Unmodelled = None"

type_synonym 'a prog = "event list \<Rightarrow> 'a result \<times> event list"

definition ret :: "'a \<Rightarrow> 'a prog" where
  "ret x tr = (Ok x, tr)"

definition Fatalf :: "fatal \<Rightarrow> 'a prog" where
  "Fatalf f tr = (Fatal f, tr)"

definition andThen :: "'a prog \<Rightarrow> ('a \<Rightarrow> 'b prog) \<Rightarrow> 'b prog" where
  "andThen m f tr =
     (case m tr of
        (Ok x, tr') \<Rightarrow> f x tr'
      | (Fatal e, tr') \<Rightarrow> (Fatal e, tr')
      | (Panic p, tr') \<Rightarrow> (Panic p, tr')
      | (Unmodelled, tr') \<Rightarrow> (Unmodelled, tr'))"

text \<open>Reading through a pointer that may be nil, and indexing a slice.\<close>

definition deref :: "'a option \<Rightarrow> 'a prog" where
  "deref p tr = (case p of None \<Rightarrow> (Panic NilDereference, tr) | Some x \<Rightarrow> (Ok x, tr))"

definition index :: "'a list \<Rightarrow> nat \<Rightarrow> 'a prog" where
  "index xs i tr = (if i < length xs then (Ok (xs ! i), tr) else (Panic IndexOutOfRange, tr))"

definition regexp_MustCompile :: "string \<Rightarrow> regexp prog" where
  "regexp_MustCompile str tr =
     (case MustCompile str of None \<Rightarrow> (Unmodelled, tr) | Some re \<Rightarrow> (Ok re, tr))"

definition Println :: "string \<Rightarrow> unit prog" where
  "Println s tr = (Ok (), tr @ [Logged s])"

definition Sleep :: "nat \<Rightarrow> unit prog" where
  "Sleep n tr = (Ok (), tr @ [Slept n])"

definition GetString :: "env \<Rightarrow> string \<Rightarrow> string" where
  "GetString e k = (case viper e k of None \<Rightarrow> [] | Some v \<Rightarrow> v)"

definition NewRequest :: "env \<Rightarrow> string \<Rightarrow> string \<Rightarrow> payload \<Rightarrow> request option" where
  "NewRequest e m u b =
     (if ParseURL e u then Some \<lparr>Method = m, URL = u, ReqHeader = [], ReqBody = b\<rparr> else None)"

definition Header_Add :: "request \<Rightarrow> string \<Rightarrow> string \<Rightarrow> request" where
  "Header_Add req k v = req\<lparr>ReqHeader := ReqHeader req @ [(k, v)]\<rparr>"

definition Header_Set :: "request \<Rightarrow> string \<Rightarrow> string \<Rightarrow> request" where
  "Header_Set req k v = req\<lparr>ReqHeader := filter (\<lambda>h. fst h \<noteq> k) (ReqHeader req) @ [(k, v)]\<rparr>"

definition Header_Get :: "response \<Rightarrow> string \<Rightarrow> string" where
  "Header_Get resp k = (case Header resp k of None \<Rightarrow> [] | Some v \<Rightarrow> v)"

definition client_Do :: "env \<Rightarrow> request \<Rightarrow> (response option \<times> string option) prog" where
  "client_Do e req tr = (Ok (Do e (length (requests tr)) req), tr @ [Sent req])"

text \<open>\<^verbatim>\<open>ioutil.ReadAll(resp.Body)\<close>, its error dropped as in the source. A response that
  comes together with an error has its body closed already, and nothing is read.\<close>

definition ReadAll :: "response \<Rightarrow> string option \<Rightarrow> string" where
  "ReadAll resp err = (case err of None \<Rightarrow> Body resp | Some _ \<Rightarrow> [])"


section \<open>The commands of root.go\<close>

definition version :: string where
  "version = ''0.9.2''"

definition userAgent :: string where
  "userAgent = ''makeSnapShot '' @ version"

definition traceInfo :: "flags \<Rightarrow> string \<Rightarrow> unit prog" where
  "traceInfo fl info = (if trace fl then Println info else ret ())"

definition exitOnEmptyString :: "string \<Rightarrow> string \<Rightarrow> unit prog" where
  "exitOnEmptyString stringName stringValue =
     (if length (TrimSpace stringValue) = 0 then Fatalf (ZeroLengthString stringName) else ret ())"

definition logFatalError :: "string option \<Rightarrow> unit prog" where
  "logFatalError err = (case err of Some x \<Rightarrow> Fatalf (Error x) | None \<Rightarrow> ret ())"

definition fileExists :: "env \<Rightarrow> string \<Rightarrow> bool prog" where
  "fileExists e filename tr =
     (case Stat e filename of
        NotExist \<Rightarrow> (Ok False, tr)
      | StatError \<Rightarrow> (Panic NilDereference, tr)
      | FileInfo isDir \<Rightarrow> (Ok (\<not> isDir), tr))"

definition validateConfig :: "env \<Rightarrow> unit prog" where
  "validateConfig e =
     andThen (fileExists e (ConfigFileUsed e)) (\<lambda>found.
       if found then
         andThen (exitOnEmptyString ''baseURL'' (GetString e ''baseURL'')) (\<lambda>_.
         andThen (exitOnEmptyString ''tenant'' (GetString e ''tenant'')) (\<lambda>_.
         andThen (exitOnEmptyString ''domain'' (GetString e ''domain'')) (\<lambda>_.
         andThen (exitOnEmptyString ''userName'' (GetString e ''userName'')) (\<lambda>_.
         exitOnEmptyString ''password'' (GetString e ''password'')))))
       else Fatalf (ConfigFileNotFound (ConfigFileUsed e)))"

subsection \<open>Step 1: the bearer token\<close>

definition systemMessagePattern :: string where
  \<open>systemMessagePattern = ''("systemMessage":")(.*)(","moreInfoUrl)''\<close>

definition h1Pattern :: string where
  \<open>h1Pattern = ''<h1>(.*)</h1>''\<close>

definition getBearerToken :: "env \<Rightarrow> flags \<Rightarrow> string prog" where
  "getBearerToken e fl =
     andThen (traceInfo fl ''Step 1 - Get bearer token'') (\<lambda>_.
     andThen (deref (NewRequest e ''POST'' (GetString e ''baseURL'' @ ''/identity/api/tokens'')
                (JSON \<lparr>Username = GetString e ''userName'' @ ''@'' @ GetString e ''domain'',
                        Password = GetString e ''password'',
                        Tenant = GetString e ''tenant''\<rparr>))) (\<lambda>req0.
     andThen (client_Do e
                (Header_Set
                   (Header_Add (Header_Add req0 ''Content-Type'' ''application/json'')
                      ''Accept'' ''application/json'')
                   ''User-Agent'' userAgent)) (\<lambda>(resp0, err).
     andThen (logFatalError err) (\<lambda>_.
     andThen (deref resp0) (\<lambda>resp.
     andThen (if StatusCode resp \<noteq> 200 then
                andThen (regexp_MustCompile systemMessagePattern) (\<lambda>re.
                andThen (index (FindStringSubmatch re (ReadAll resp err)) 2) (\<lambda>msg.
                Fatalf (UnexpectedStatus (StatusCode resp) msg)))
              else ret ()) (\<lambda>_.
     andThen (case Unmarshal e (ReadAll resp err) of
                Inl x \<Rightarrow> Fatalf (Error x)
              | Inr gbtResponse \<Rightarrow> ret gbtResponse) (\<lambda>gbtResponse.
     andThen (exitOnEmptyString ''bearerToken'' (ID gbtResponse)) (\<lambda>_.
     ret (''Bearer '' @ ID gbtResponse)))))))))"


subsection \<open>Step 2: the resource id of the virtual machine\<close>

definition resourcePattern :: "string \<Rightarrow> string" where
  \<open>resourcePattern machine =
     ''"@type":"CatalogResource","id":"(?P<id>.{36})","iconId":"Infrastructure.CatalogItem.Machine.Virtual.vSphere","resourceTypeRef":{"id":"Infrastructure.Virtual","label":"Virtual Machine"},"name":".{3}(?P<name>''
     @ machine @ '')","description"''\<close>

definition getVirtualMachineResourceID :: "env \<Rightarrow> flags \<Rightarrow> string \<Rightarrow> string \<Rightarrow> string prog" where
  "getVirtualMachineResourceID e fl token machine =
     andThen (traceInfo fl (''Step 2 - Get virtual machine resource ID for '' @ machine)) (\<lambda>_.
     andThen (deref (NewRequest e ''GET''
                (GetString e ''baseURL'' @ ''/catalog-service/api/consumer/resources?page=1&limit=5000'')
                NoBody)) (\<lambda>req0.
     andThen (ret (Header_Set
                (Header_Add
                   (Header_Add (Header_Add req0 ''Content-Type'' ''application/json'')
                      ''Accept'' ''application/json'')
                   ''Authorization'' token)
                ''User-Agent'' userAgent)) (\<lambda>req.
     andThen (case ParseForm e req of Some parseFormErr \<Rightarrow> Println parseFormErr | None \<Rightarrow> ret ()) (\<lambda>_.
     andThen (client_Do e req) (\<lambda>(resp0, err).
     andThen (logFatalError err) (\<lambda>_.
     andThen (deref resp0) (\<lambda>resp.
     andThen (if StatusCode resp \<noteq> 200 then
                andThen (regexp_MustCompile h1Pattern) (\<lambda>re.
                andThen (index (FindStringSubmatch re (ReadAll resp err)) 1) (\<lambda>msg.
                Fatalf (Error msg)))
              else ret ()) (\<lambda>_.
     andThen (regexp_MustCompile (resourcePattern machine)) (\<lambda>re.
     andThen (ret (FindStringSubmatch re (ReadAll resp err))) (\<lambda>matches.
     andThen (if matches = [] then Fatalf (ResourceNotFound machine)
              else andThen (index matches 1) (exitOnEmptyString ''machineID'')) (\<lambda>_.
     index matches 1)))))))))))"

subsection \<open>Step 3: the id of the snapshot action\<close>

definition actionPattern :: string where
  \<open>actionPattern = ''"name":"Create VM Snapshot".*?"ACTION","id":"(?P<id>.*?)",''\<close>

definition getSnapshotResourceActionID :: "env \<Rightarrow> flags \<Rightarrow> string \<Rightarrow> string \<Rightarrow> string prog" where
  "getSnapshotResourceActionID e fl token vmID =
     andThen (traceInfo fl (''Step 3 - Get snapshot resource action ID for '' @ machineName fl)) (\<lambda>_.
     andThen (deref (NewRequest e ''GET''
                (GetString e ''baseURL'' @ ''/catalog-service/api/consumer/resources/'' @ vmID @ ''/actions/'')
                NoBody)) (\<lambda>req0.
     andThen (client_Do e
                (Header_Set
                   (Header_Add
                      (Header_Add (Header_Add req0 ''Content-Type'' ''application/json'')
                         ''Accept'' ''application/json'')
                      ''Authorization'' token)
                   ''User-Agent'' userAgent)) (\<lambda>(resp0, err).
     andThen (case err of Some x \<Rightarrow> Println (''Failure :  '' @ x) | None \<Rightarrow> ret ()) (\<lambda>_.
     andThen (deref resp0) (\<lambda>resp.
     andThen (if StatusCode resp \<noteq> 200 then
                andThen (regexp_MustCompile h1Pattern) (\<lambda>re.
                andThen (index (FindStringSubmatch re (ReadAll resp err)) 1) (\<lambda>msg.
                Fatalf (Error msg)))
              else ret ()) (\<lambda>_.
     andThen (regexp_MustCompile actionPattern) (\<lambda>re.
     andThen (ret (FindStringSubmatch re (ReadAll resp err))) (\<lambda>matches.
     andThen (if matches = [] then Fatalf ActionNotFound
              else andThen (index matches 1) (exitOnEmptyString ''Create Snapshot Action ID'')) (\<lambda>_.
     index matches 1)))))))))"

subsection \<open>Step 4: the resource action template\<close>

definition getResourceActionTemplate :: "flags \<Rightarrow> unit prog" where
  "getResourceActionTemplate fl = traceInfo fl ''Step 4 - Get resource action template''"

subsection \<open>Step 5: the snapshot request\<close>

definition snapshotJSON :: "env \<Rightarrow> flags \<Rightarrow> string" where
  \<open>snapshotJSON e fl =
     (if keepExisting fl then
        ''{"type": "com.vmware.vcac.catalog.domain.request.CatalogResourceRequest","data": {"provider-existingSnapshotName": null,"provider-deleteExisting": false,"provider-description": "Snapshotdescription","provider-name": "Snapshot name","provider-__ASD_PRESENTATION_INSTANCE": null,"provider-__asd_tenantRef": "''
        @ GetString e ''tenant'' @ ''"},"description": "makeSnapshot call"}''
      else
        ''{"type": "com.vmware.vcac.catalog.domain.request.CatalogResourceRequest","data": {"provider-existingSnapshotName": null,"provider-deleteExisting": true,"provider-description": "Snapshotdescription","provider-name": "Snapshot name","provider-__ASD_PRESENTATION_INSTANCE": null,"provider-__asd_tenantRef": "''
        @ GetString e ''tenant'' @ ''"},"description": "makeSnapshot call"}'')\<close>

definition sendSnapshotRequest :: "env \<Rightarrow> flags \<Rightarrow> string \<Rightarrow> string \<Rightarrow> string \<Rightarrow> string prog" where
  "sendSnapshotRequest e fl token vmID snapshotActionID =
     andThen (traceInfo fl (''Step 5 - Send snapshot request for '' @ machineName fl)) (\<lambda>_.
     andThen (deref (NewRequest e ''POST''
                (GetString e ''baseURL'' @ ''/catalog-service/api/consumer/resources/'' @ vmID
                   @ ''/actions/'' @ snapshotActionID @ ''/requests/'')
                (Bytes (snapshotJSON e fl)))) (\<lambda>req0.
     andThen (client_Do e
                (Header_Set
                   (Header_Add
                      (Header_Add (Header_Add req0 ''Content-Type'' ''application/json;charset=UTF-8'')
                         ''Accept'' ''application/json;charset=UTF-8'')
                      ''Authorization'' token)
                   ''User-Agent'' userAgent)) (\<lambda>(resp0, err).
     andThen (logFatalError err) (\<lambda>_.
     andThen (deref resp0) (\<lambda>resp.
     andThen (if StatusCode resp \<noteq> 201 then
                andThen (regexp_MustCompile h1Pattern) (\<lambda>re.
                andThen (index (FindStringSubmatch re (ReadAll resp err)) 1) (\<lambda>msg.
                Fatalf (Error msg)))
              else ret ()) (\<lambda>_.
     andThen (exitOnEmptyString ''Resource Action Request URL'' (Header_Get resp ''Location'')) (\<lambda>_.
     ret (Header_Get resp ''Location''))))))))"

subsection \<open>Step 6: the state of the request\<close>

definition statePattern :: string where
  \<open>statePattern = ''"stateName":"(?P<state>.*?)"''\<close>

datatype control = Continue | Break

text \<open>One turn of the loop.\<close>

definition poll :: "env \<Rightarrow> flags \<Rightarrow> request \<Rightarrow> regexp \<Rightarrow> control prog" where
  "poll e fl req re =
     andThen (Sleep 10) (\<lambda>_.
     andThen (client_Do e req) (\<lambda>(resp0, err).
     andThen (case err of Some x \<Rightarrow> Println (''Failure :  '' @ x) | None \<Rightarrow> ret ()) (\<lambda>_.
     andThen (deref resp0) (\<lambda>resp.
     andThen (ret (FindStringSubmatch re (ReadAll resp err))) (\<lambda>matches.
     andThen (index matches 1) (\<lambda>state.
     andThen (traceInfo fl (''Step 6 - Snapshot request status: '' @ state)) (\<lambda>_.
     if state = ''Failed'' then Fatalf SnapshotFailed
     else if state = ''Successful'' then ret Break
     else ret Continue)))))))"

text \<open>The loop has no bound: a run that never leaves it has no result.\<close>

type_synonym 'a run = "event list \<Rightarrow> ('a result \<times> event list) option"

partial_function (option) polling :: "env \<Rightarrow> flags \<Rightarrow> request \<Rightarrow> regexp \<Rightarrow> unit run" where
  "polling e fl req re tr =
     (case poll e fl req re tr of
        (Ok Continue, tr') \<Rightarrow> polling e fl req re tr'
      | (Ok Break, tr') \<Rightarrow> Some (Ok (), tr')
      | (Fatal f, tr') \<Rightarrow> Some (Fatal f, tr')
      | (Panic p, tr') \<Rightarrow> Some (Panic p, tr')
      | (Unmodelled, tr') \<Rightarrow> Some (Unmodelled, tr'))"

definition lift :: "'a prog \<Rightarrow> 'a run" where
  "lift m tr = Some (m tr)"

definition thenRun :: "'a run \<Rightarrow> ('a \<Rightarrow> 'b run) \<Rightarrow> 'b run" where
  "thenRun m f tr =
     (case m tr of
        None \<Rightarrow> None
      | Some (Ok x, tr') \<Rightarrow> f x tr'
      | Some (Fatal e, tr') \<Rightarrow> Some (Fatal e, tr')
      | Some (Panic p, tr') \<Rightarrow> Some (Panic p, tr')
      | Some (Unmodelled, tr') \<Rightarrow> Some (Unmodelled, tr'))"

definition getRequestResultState :: "env \<Rightarrow> flags \<Rightarrow> string \<Rightarrow> string \<Rightarrow> unit run" where
  "getRequestResultState e fl token requestStatusURL =
     thenRun (lift (traceInfo fl ''Step 6 - Get snapshot request status...'')) (\<lambda>_.
     thenRun (lift (deref (NewRequest e ''GET'' requestStatusURL NoBody))) (\<lambda>req0.
     thenRun (lift (ret (Header_Add
                (Header_Add (Header_Add req0 ''Content-Type'' ''application/json;charset=UTF-8'')
                   ''Accept'' ''application/json;charset=UTF-8'')
                ''Authorization'' token))) (\<lambda>req.
     thenRun (lift (regexp_MustCompile statePattern)) (\<lambda>re.
     polling e fl req re))))"

subsection \<open>The root command\<close>

definition Run :: "env \<Rightarrow> flags \<Rightarrow> unit run" where
  \<open>Run e fl =
     thenRun (lift (validateConfig e)) (\<lambda>_.
     thenRun (lift (traceInfo fl (''Creating snapshot of virtual machine "'' @ machineName fl
                @ ''" for tenant "'' @ GetString e ''tenant'' @ ''"''))) (\<lambda>_.
     thenRun (lift (getBearerToken e fl)) (\<lambda>bearerToken.
     thenRun (lift (getVirtualMachineResourceID e fl bearerToken (machineName fl))) (\<lambda>virtualMachineID.
     thenRun (lift (getSnapshotResourceActionID e fl bearerToken virtualMachineID)) (\<lambda>snapshotActionID.
     thenRun (lift (getResourceActionTemplate fl)) (\<lambda>_.
     thenRun (if \<not> dryRun fl then
                thenRun (lift (sendSnapshotRequest e fl bearerToken virtualMachineID snapshotActionID))
                  (\<lambda>requestStatusURL.
                getRequestResultState e fl bearerToken requestStatusURL)
              else
                thenRun (lift (traceInfo fl ''Step 5 - Skipped because of dry-run'')) (\<lambda>_.
                lift (traceInfo fl ''Step 6 - Skipped because of dry-run''))) (\<lambda>_.
     lift (traceInfo fl ''Bye from makeSnapshot''))))))))\<close>


section \<open>Notions used to state the properties\<close>

text \<open>A machine name is plain when it has none of the characters that the pattern
  syntax reads as operators.\<close>

definition metachars :: string where
  "metachars = CHR 0x5C # ''.+*?()|[]{}^$''"

definition plain :: "string \<Rightarrow> bool" where
  "plain s = (\<forall>c \<in> set s. c \<notin> set metachars)"

text \<open>The instructions of a text in which only the dot is an operator, and the texts
  that it matches.\<close>

definition glob :: "string \<Rightarrow> regexp" where
  "glob t = map (\<lambda>c. if c = CHR ''.'' then Dot else Lit c) t"

definition like :: "string \<Rightarrow> string \<Rightarrow> bool" where
  "like t w = list_all2 (\<lambda>a b. if a = CHR ''.'' then b \<noteq> newline else b = a) t w"

text \<open>The three fixed parts of the pattern of step 2, and its instructions for a
  plain machine name.\<close>

definition entryHead :: string where
  \<open>entryHead = ''"@type":"CatalogResource","id":"''\<close>

definition entryType :: string where
  \<open>entryType = ''","iconId":"Infrastructure.CatalogItem.Machine.Virtual.vSphere","resourceTypeRef":{"id":"Infrastructure.Virtual","label":"Virtual Machine"},"name":"''\<close>

definition entryTail :: string where
  \<open>entryTail = ''","description"''\<close>

definition resourceProg :: "string \<Rightarrow> regexp" where
  "resourceProg machine =
     map Lit entryHead @ Open # replicate 36 Dot @ Close # glob entryType @ replicate 3 Dot
       @ Open # map Lit machine @ Close # map Lit entryTail"

text \<open>
  A catalog entry of a virtual machine, as step 2 looks for it, starts the text \<open>t\<close>:
  the opening of the entry, 36 characters of id, the type fields (a dot of the pattern
  stands for any character of the entry), 3 characters of prefix, the machine name and
  the end of the name field. No wildcard takes a line feed.
\<close>

definition entryId :: "string \<Rightarrow> string" where
  "entryId t = take 36 (drop (length entryHead) t)"

definition resourceEntry :: "string \<Rightarrow> string \<Rightarrow> bool" where
  "resourceEntry machine t =
     (let id = take 36 (drop (length entryHead) t);
          ty = take (length entryType) (drop (length entryHead + 36) t);
          x = take 3 (drop (length entryHead + 36 + length entryType) t);
          r = drop (length entryHead + 36 + length entryType + 3) t
      in prefix entryHead t \<and> length id = 36 \<and> newline \<notin> set id \<and> like entryType ty
         \<and> length x = 3 \<and> newline \<notin> set x \<and> prefix (machine @ entryTail) r)"

definition firstEntry :: "string \<Rightarrow> string \<Rightarrow> nat option" where
  "firstEntry machine b = find (\<lambda>i. resourceEntry machine (drop i b)) [0..<Suc (length b)]"

text \<open>The requests that the steps build.\<close>

definition tokenRequest :: "env \<Rightarrow> request" where
  "tokenRequest e =
     \<lparr>Method = ''POST'',
      URL = GetString e ''baseURL'' @ ''/identity/api/tokens'',
      ReqHeader = [(''Content-Type'', ''application/json''), (''Accept'', ''application/json''),
                   (''User-Agent'', userAgent)],
      ReqBody = JSON \<lparr>Username = GetString e ''userName'' @ ''@'' @ GetString e ''domain'',
                       Password = GetString e ''password'',
                       Tenant = GetString e ''tenant''\<rparr>\<rparr>"

definition resourcesRequest :: "env \<Rightarrow> string \<Rightarrow> request" where
  "resourcesRequest e token =
     \<lparr>Method = ''GET'',
      URL = GetString e ''baseURL'' @ ''/catalog-service/api/consumer/resources?page=1&limit=5000'',
      ReqHeader = [(''Content-Type'', ''application/json''), (''Accept'', ''application/json''),
                   (''Authorization'', token), (''User-Agent'', userAgent)],
      ReqBody = NoBody\<rparr>"

definition actionsRequest :: "env \<Rightarrow> string \<Rightarrow> string \<Rightarrow> request" where
  "actionsRequest e token vmID =
     \<lparr>Method = ''GET'',
      URL = GetString e ''baseURL'' @ ''/catalog-service/api/consumer/resources/'' @ vmID @ ''/actions/'',
      ReqHeader = [(''Content-Type'', ''application/json''), (''Accept'', ''application/json''),
                   (''Authorization'', token), (''User-Agent'', userAgent)],
      ReqBody = NoBody\<rparr>"

definition snapshotRequest :: "env \<Rightarrow> flags \<Rightarrow> string \<Rightarrow> string \<Rightarrow> string \<Rightarrow> request" where
  "snapshotRequest e fl token vmID snapshotActionID =
     \<lparr>Method = ''POST'',
      URL = GetString e ''baseURL'' @ ''/catalog-service/api/consumer/resources/'' @ vmID
              @ ''/actions/'' @ snapshotActionID @ ''/requests/'',
      ReqHeader = [(''Content-Type'', ''application/json;charset=UTF-8''),
                   (''Accept'', ''application/json;charset=UTF-8''),
                   (''Authorization'', token), (''User-Agent'', userAgent)],
      ReqBody = Bytes (snapshotJSON e fl)\<rparr>"

definition statusRequest :: "string \<Rightarrow> string \<Rightarrow> request" where
  "statusRequest token requestStatusURL =
     \<lparr>Method = ''GET'',
      URL = requestStatusURL,
      ReqHeader = [(''Content-Type'', ''application/json;charset=UTF-8''),
                   (''Accept'', ''application/json;charset=UTF-8''),
                   (''Authorization'', token)],
      ReqBody = NoBody\<rparr>"

text \<open>
  The answer to the \<open>i\<close>-th poll of a loop that starts after the events \<open>tr\<close>, the
  state name that step 6 reads in an answer, the state names on which the loop goes on,
  and the sleeps and requests of \<open>n\<close> polls.
\<close>

definition answer :: "env \<Rightarrow> event list \<Rightarrow> request \<Rightarrow> nat \<Rightarrow> response option \<times> string option" where
  "answer e tr req i = Do e (length (requests tr) + i) req"

definition stateName :: "response option \<times> string option \<Rightarrow> string option" where
  "stateName a =
     (case (fst a, MustCompile statePattern) of
        (Some resp, Some re) \<Rightarrow>
          (let matches = FindStringSubmatch re (ReadAll resp (snd a))
           in if 1 < length matches then Some (matches ! 1) else None)
      | _ \<Rightarrow> None)"

definition pending :: "string option \<Rightarrow> bool" where
  "pending s = (case s of None \<Rightarrow> False | Some x \<Rightarrow> x \<noteq> ''Failed'' \<and> x \<noteq> ''Successful'')"

definition polls :: "request \<Rightarrow> nat \<Rightarrow> event list" where
  "polls req n = concat (replicate n [Slept 10, Sent req])"

text \<open>The instructions of the fixed patterns.\<close>

definition stateProg :: regexp where
  \<open>stateProg = map Lit ''"stateName":"'' @ [Open, StarLazy, Close, Lit (CHR 0x22)]\<close>

definition h1Prog :: regexp where
  \<open>h1Prog = map Lit ''<h1>'' @ [Open, StarGreedy, Close] @ map Lit ''</h1>''\<close>

definition systemMessageProg :: regexp where
  \<open>systemMessageProg =
     Open # map Lit ''"systemMessage":"'' @ [Close, Open, StarGreedy, Close, Open]
       @ map Lit ''","moreInfoUrl'' @ [Close]\<close>

definition actionProg :: regexp where
  \<open>actionProg =
     map Lit ''"name":"Create VM Snapshot"'' @ StarLazy # map Lit ''"ACTION","id":"''
       @ [Open, StarLazy, Close] @ map Lit ''",''\<close>

text \<open>The run up to and including step 4, in the order of the root command; it
  returns the bearer token, the resource id and the action id.\<close>

definition preparation :: "env \<Rightarrow> flags \<Rightarrow> (string \<times> string \<times> string) prog" where
  \<open>preparation e fl =
     andThen (validateConfig e) (\<lambda>_.
     andThen (traceInfo fl (''Creating snapshot of virtual machine "'' @ machineName fl
                @ ''" for tenant "'' @ GetString e ''tenant'' @ ''"'')) (\<lambda>_.
     andThen (getBearerToken e fl) (\<lambda>bearerToken.
     andThen (getVirtualMachineResourceID e fl bearerToken (machineName fl)) (\<lambda>virtualMachineID.
     andThen (getSnapshotResourceActionID e fl bearerToken virtualMachineID) (\<lambda>snapshotActionID.
     andThen (getResourceActionTemplate fl) (\<lambda>_.
     ret (bearerToken, virtualMachineID, snapshotActionID)))))))\<close>





section \<open>Example runs\<close>

text \<open>Settings, an environment whose server gives the listed answers in turn and
  then the same answer for ever, and the bodies of some answers.\<close>

definition exampleSettings :: "string \<rightharpoonup> string" where
  "exampleSettings =
     map_of [(''baseURL'', ''https://vra.example.org''), (''tenant'', ''acme''),
             (''domain'', ''example.org''), (''userName'', ''anna''), (''password'', ''secret'')]"

definition tokenBody :: string where
  \<open>tokenBody = ''{"id":"t0k3n"}''\<close>

definition exampleEnv :: "(response option \<times> string option) list \<Rightarrow> response option \<times> string option \<Rightarrow> env" where
  "exampleEnv answers rest =
     \<lparr>viper = exampleSettings,
      ConfigFileUsed = ''makeSnapshot.yaml'',
      Stat = (\<lambda>_. FileInfo False),
      ParseURL = (\<lambda>_. True),
      ParseForm = (\<lambda>_. None),
      Do = (\<lambda>n _. if n < length answers then answers ! n else rest),
      Unmarshal = (\<lambda>b. if b = tokenBody then Inr \<lparr>Expires = [], ID = ''t0k3n'', Tenant' = []\<rparr>
                         else Inl ''unexpected end of JSON input'')\<rparr>"

definition exampleFlags :: flags where
  "exampleFlags = \<lparr>dryRun = False, keepExisting = False, machineName = ''myvm'', trace = False\<rparr>"

definition replied :: "int \<Rightarrow> string \<Rightarrow> response option \<times> string option" where
  "replied code b = (Some \<lparr>StatusCode = code, Header = Map.empty, Body = b\<rparr>, None)"

definition stateBody :: "string \<Rightarrow> string" where
  \<open>stateBody s = ''{"requestNumber":7,"stateName":"'' @ s @ ''","phase":"x"}''\<close>

definition refused :: "response option \<times> string option" where
  "refused = (None, Some ''dial tcp: connection refused'')"

definition exampleListing :: "string \<Rightarrow> string" where
  \<open>exampleListing name =
     ''{"content":[{'' @ entryHead @ ''2a415ba9-81f5-4bff-b35f-bccfd5587165'' @ entryType @ name
       @ entryTail @ '':null}]}''\<close>

definition exampleActions :: string where
  \<open>exampleActions =
     ''{"content":[{"name":"Create VM Snapshot","bindingId":"b1","type":"ACTION","id":"fcf490d5-a7e9-4640-be83-ac74d4484c91","x":1}]}''\<close>

definition created :: "string \<Rightarrow> response option \<times> string option" where
  "created location = (Some \<lparr>StatusCode = 201, Header = [''Location'' \<mapsto> location], Body = []\<rparr>, None)"

definition prepared :: "(response option \<times> string option) list" where
  "prepared = [replied 200 tokenBody, replied 200 (exampleListing ''xyzmyvm''), replied 200 exampleActions]"

text \<open>The same environment with a token service that answers with the token id \<open>tok\<close>.\<close>

definition tokenEnv :: "string \<Rightarrow> env" where
  "tokenEnv tok =
     (exampleEnv prepared refused)
       \<lparr>Unmarshal := (\<lambda>b. if b = tokenBody then Inr \<lparr>Expires = [], ID = tok, Tenant' = []\<rparr>
                           else Inl ''unexpected end of JSON input'')\<rparr>"



section \<open>Compiled patterns\<close>

lemma compile_plain:
  "plain m \<Longrightarrow> compile outer False (m @ r) = map_option ((@) (map Lit m)) (compile outer False r)"
proof (induction m)
  case Nil
  show ?case by (simp add: option.map_ident)
next
  case (Cons c m)
  then have c: "c \<notin> set metachars" and m: "plain m" by (simp_all add: plain_def)
  from c have "compile outer False (c # m @ r) = map_option ((#) (Lit c)) (compile outer False (m @ r))"
    by (simp add: metachars_def operators_def literal_def)
  then show ?case using Cons.IH [OF m] by (simp add: option.map_comp comp_def)
qed

lemma compile_tail: "compile False False ('')'' @ entryTail) = Some (Close # map Lit entryTail)"
  by code_simp

lemma compile_resource_aux:
  "compile False False (resourcePattern machine) = map_option (\<lambda>q. map Lit entryHead @ Open # replicate 36 Dot @ Close # glob entryType @ replicate 3 Dot @ Open # q) (compile False False (machine @ '')'' @ entryTail))"
  unfolding resourcePattern_def entryTail_def
  apply (simp add: isDigit_def isWord_def number_def operators_def entryHead_def entryType_def glob_def literal_def option.map_comp comp_def numeral_eq_Suc)
  done


lemma groups_ok_basic:
  "\<forall>i \<in> set p. i \<noteq> Open \<and> i \<noteq> Close \<Longrightarrow> groups_ok b (p @ q) = groups_ok b q"
proof (induction p)
  case Nil
  show ?case by simp
next
  case (Cons i p)
  then show ?case by (cases i) simp_all
qed

lemma compile_resource:
  assumes "plain machine"
  shows "MustCompile (resourcePattern machine) = Some (resourceProg machine)"
proof -
  have c: "compile False False (resourcePattern machine) = Some (resourceProg machine)"
    using compile_tail
    by (simp add: compile_resource_aux compile_plain [OF assms] resourceProg_def del: compile.simps)
  have g1: "groups_ok b (map Lit w @ q) = groups_ok b q" for b w q
    by (rule groups_ok_basic) auto
  have g2: "groups_ok b (replicate k Dot @ q) = groups_ok b q" for b k q
    by (rule groups_ok_basic) auto
  have g3: "groups_ok b (glob w @ q) = groups_ok b q" for b w q
    by (rule groups_ok_basic) (auto simp: glob_def)
  have g4: "groups_ok b (map Lit w) = (\<not> b)" for b w
    using g1 [of b w "[]"] by simp
  have "groups_ok False (resourceProg machine)"
    by (simp add: resourceProg_def g1 g2 g3 g4)
  with c show ?thesis by (simp add: MustCompile_def)
qed


section \<open>Matching\<close>

lemma exec_lits:
  "exec (map Lit w @ q) n s ms =
     (if prefix w s then exec q (n + length w) (drop (length w) s) ms else None)"
proof (induction w arbitrary: n s)
  case Nil
  show ?case by simp
next
  case (Cons c w)
  show ?case by (cases s) (simp_all add: Cons.IH)
qed

lemma exec_dots:
  "exec (replicate k Dot @ q) n s ms =
     (if length (take k s) = k \<and> newline \<notin> set (take k s)
      then exec q (n + k) (drop k s) ms else None)"
proof (induction k arbitrary: n s)
  case 0
  show ?case by simp
next
  case (Suc k)
  show ?case by (cases s) (simp_all add: Suc.IH)
qed

lemma exec_glob:
  "exec (glob t @ q) n s ms =
     (if like t (take (length t) s) then exec q (n + length t) (drop (length t) s) ms else None)"
proof (induction t arbitrary: n s)
  case Nil
  show ?case by (simp add: glob_def like_def)
next
  case (Cons c t)
  have g: "glob (c # t) = (if c = CHR ''.'' then Dot else Lit c) # glob t"
    by (simp add: glob_def)
  show ?case
  proof (cases s)
    case Nil
    then show ?thesis by (simp add: g like_def)
  next
    case (Cons x xs)
    have "like (c # t) (x # take (length t) xs)
            = ((if c = CHR ''.'' then x \<noteq> newline else x = c) \<and> like t (take (length t) xs))"
      by (simp add: like_def)
    then show ?thesis using Cons.IH [of "Suc n" xs] Cons by (simp add: g)
  qed
qed

lemma find_map_Suc:
  "find P (map Suc xs) = map_option Suc (find (\<lambda>i. P (Suc i)) xs)"
  by (induction xs) simp_all

lemma upt_Suc_shift: "[0..<Suc (Suc n)] = 0 # map Suc [0..<Suc n]"
  unfolding map_Suc_upt by (rule upt_conv_Cons) simp

lemma search_find:
  "search p s =
     (case find (\<lambda>i. exec p 0 (drop i s) [] \<noteq> None) [0..<Suc (length s)] of
        None \<Rightarrow> None
      | Some i \<Rightarrow> Some (drop i s, the (exec p 0 (drop i s) [])))"
proof (induction s)
  case Nil
  show ?case by (cases "exec p 0 [] []") simp_all
next
  case (Cons x xs)
  have u: "[0..<Suc (length (x # xs))] = 0 # map Suc [0..<Suc (length xs)]"
    using upt_Suc_shift [of "length xs"] by (simp del: upt_Suc)
  show ?case
  proof (cases "exec p 0 (x # xs) []")
    case (Some ms)
    then show ?thesis unfolding u by simp
  next
    case None
    define L where "L = [0..<Suc (length xs)]"
    have f: "find (\<lambda>i. exec p 0 (drop i (x # xs)) [] \<noteq> None) (0 # map Suc L)
               = map_option Suc (find (\<lambda>i. exec p 0 (drop i xs) [] \<noteq> None) L)"
      using None by (simp add: find_map_Suc)
    have ih: "search p xs =
        (case find (\<lambda>i. exec p 0 (drop i xs) [] \<noteq> None) L of
           None \<Rightarrow> None
         | Some i \<Rightarrow> Some (drop i xs, the (exec p 0 (drop i xs) [])))"
      using Cons.IH by (simp only: L_def)
    show ?thesis
      unfolding u L_def [symmetric] f
      using None ih
      by (cases "find (\<lambda>i. exec p 0 (drop i xs) [] \<noteq> None) L") simp_all
  qed
qed

lemma exec_resource:
  "exec (resourceProg machine) 0 t [] =
     (if resourceEntry machine t
      then Some [length entryHead, length entryHead + 36,
                 length entryHead + 36 + length entryType + 3,
                 length entryHead + 36 + length entryType + 3 + length machine,
                 length entryHead + 36 + length entryType + 3 + length machine + length entryTail]
      else None)"
proof -
  have tail: "exec (map Lit w) n s ms = (if prefix w s then Some (ms @ [n + length w]) else None)"
    for w n s ms
    using exec_lits [of w "[]" n s ms] by simp
  have pre: "prefix (m @ z) r = (prefix m r \<and> prefix z (drop (length m) r))" for m z r :: string
    by (metis append_eq_conv_conj prefix_def append.assoc append_take_drop_id prefixI prefixE)
  show ?thesis
    unfolding resourceProg_def resourceEntry_def Let_def
    by (simp add: exec_lits exec_dots exec_glob tail pre add.commute add.left_commute)
qed

lemma find_resource:
  "FindStringSubmatch (resourceProg machine) b =
     (case firstEntry machine b of
        None \<Rightarrow> []
      | Some i \<Rightarrow>
          [take (length entryHead + 36 + length entryType + 3 + length machine + length entryTail) (drop i b),
           entryId (drop i b),
           take (length machine) (drop (length entryHead + 36 + length entryType + 3) (drop i b))])"
proof -
  have p: "(\<lambda>i. exec (resourceProg machine) 0 (drop i b) [] \<noteq> None)
             = (\<lambda>i. resourceEntry machine (drop i b))"
    by (simp add: exec_resource fun_eq_iff)
  have s: "search (resourceProg machine) b =
      (case firstEntry machine b of
         None \<Rightarrow> None
       | Some i \<Rightarrow> Some (drop i b, the (exec (resourceProg machine) 0 (drop i b) [])))"
    unfolding search_find p firstEntry_def ..
  show ?thesis
  proof (cases "firstEntry machine b")
    case None
    then show ?thesis by (simp add: FindStringSubmatch_def s)
  next
    case (Some i)
    then have "resourceEntry machine (drop i b)"
      by (auto simp: firstEntry_def find_Some_iff)
    with Some show ?thesis
      by (simp add: FindStringSubmatch_def s exec_resource entryId_def)
  qed
qed


section \<open>Running the commands\<close>

lemma andThen_ret: "andThen (ret x) f = f x"
  by (simp add: andThen_def ret_def fun_eq_iff)

lemma andThen_Fatalf: "andThen (Fatalf a) f = Fatalf a"
  by (simp add: andThen_def Fatalf_def fun_eq_iff)

lemma andThen_Println: "andThen (Println s) f tr = f () (tr @ [Logged s])"
  by (simp add: andThen_def Println_def)

lemma andThen_Sleep: "andThen (Sleep n) f tr = f () (tr @ [Slept n])"
  by (simp add: andThen_def Sleep_def)

lemma andThen_client_Do:
  "andThen (client_Do e req) f tr = f (Do e (length (requests tr)) req) (tr @ [Sent req])"
  by (simp add: andThen_def client_Do_def)

lemma andThen_deref:
  "andThen (deref p) f tr = (case p of None \<Rightarrow> (Panic NilDereference, tr) | Some y \<Rightarrow> f y tr)"
  by (simp add: andThen_def deref_def split: option.splits)

lemma andThen_index:
  "andThen (index xs i) f tr = (if i < length xs then f (xs ! i) tr else (Panic IndexOutOfRange, tr))"
  by (simp add: andThen_def index_def)

lemma andThen_MustCompile:
  "andThen (regexp_MustCompile str) f tr =
     (case MustCompile str of None \<Rightarrow> (Unmodelled, tr) | Some re \<Rightarrow> f re tr)"
  by (simp add: andThen_def regexp_MustCompile_def split: option.splits)

lemma andThen_assoc: "andThen (andThen m f) g = andThen m (\<lambda>x. andThen (f x) g)"
  by (auto simp: andThen_def fun_eq_iff split: prod.splits result.splits)

lemmas andThen_simps = andThen_assoc andThen_ret andThen_Fatalf andThen_Println andThen_Sleep andThen_client_Do
  andThen_deref andThen_index andThen_MustCompile

lemma andThen_traceInfo:
  "andThen (traceInfo fl s) f tr = f () (if trace fl then tr @ [Logged s] else tr)"
  by (simp add: traceInfo_def andThen_simps)

lemma andThen_if:
  "andThen (if c then m else m') f = (if c then andThen m f else andThen m' f)"
  by simp

lemma andThen_exitOnEmptyString:
  "andThen (exitOnEmptyString k v) f tr =
     (if TrimSpace v = [] then (Fatal (ZeroLengthString k), tr) else f () tr)"
  by (simp add: exitOnEmptyString_def andThen_simps Fatalf_def)

lemma andThen_logFatalError:
  "andThen (logFatalError err) f tr =
     (case err of Some x \<Rightarrow> (Fatal (Error x), tr) | None \<Rightarrow> f () tr)"
  by (simp add: logFatalError_def andThen_simps Fatalf_def split: option.splits)

lemma requests_append: "requests (xs @ ys) = requests xs @ requests ys"
  by (induction xs rule: requests.induct) simp_all

text \<open>\<^verbatim>\<open>strings.TrimSpace\<close> leaves nothing exactly of a string of white space.\<close>

lemma TrimSpace_Nil_iff: "TrimSpace s = [] \<longleftrightarrow> list_all isSpace s"
proof
  assume "TrimSpace s = []"
  then have "dropWhile isSpace (rev (dropWhile isSpace s)) = []"
    by (simp add: TrimSpace_def)
  then have a: "\<forall>x \<in> set (dropWhile isSpace s). isSpace x"
    by (simp add: dropWhile_eq_Nil_conv)
  have "dropWhile isSpace s = []"
  proof (rule ccontr)
    assume n: "dropWhile isSpace s \<noteq> []"
    then have "\<not> isSpace (hd (dropWhile isSpace s))" by (rule hd_dropWhile)
    moreover have "hd (dropWhile isSpace s) \<in> set (dropWhile isSpace s)" using n by simp
    ultimately show False using a by blast
  qed
  then show "list_all isSpace s"
    by (simp add: dropWhile_eq_Nil_conv list_all_iff)
next
  assume "list_all isSpace s"
  then have e: "dropWhile isSpace s = []"
    by (simp add: dropWhile_eq_Nil_conv list_all_iff)
  show "TrimSpace s = []" unfolding TrimSpace_def e by simp
qed



section \<open>Step 2 on a listing\<close>

lemma getVirtualMachineResourceID_listing:
  assumes "plain machine"
    and "ParseURL e (URL (resourcesRequest e token))"
    and "Do e (length (requests tr)) (resourcesRequest e token) = (Some resp, None)"
    and "StatusCode resp = 200"
  shows "fst (getVirtualMachineResourceID e fl token machine tr) =
     (case firstEntry machine (Body resp) of
        None \<Rightarrow> Fatal (ResourceNotFound machine)
      | Some i \<Rightarrow>
          if TrimSpace (entryId (drop i (Body resp))) = [] then Fatal (ZeroLengthString ''machineID'')
          else Ok (entryId (drop i (Body resp))))"
proof -
  have r: "Header_Set (Header_Add (Header_Add (Header_Add
             \<lparr>Method = ''GET'', URL = GetString e ''baseURL'' @ ''/catalog-service/api/consumer/resources?page=1&limit=5000'', ReqHeader = [], ReqBody = NoBody\<rparr>
             ''Content-Type'' ''application/json'') ''Accept'' ''application/json'')
             ''Authorization'' token) ''User-Agent'' userAgent = resourcesRequest e token"
    by (simp add: Header_Set_def Header_Add_def resourcesRequest_def)
  have u: "ParseURL e (GetString e ''baseURL'' @ ''/catalog-service/api/consumer/resources?page=1&limit=5000'')"
    using assms(2) by (simp add: resourcesRequest_def)
  have k: "length (requests (if trace fl then tr @ [Logged x] else tr)) = length (requests tr)" for x
    by (simp add: requests_append)
  have k2: "length (requests (if trace fl then tr @ [Logged x, Logged y] else tr @ [Logged y])) = length (requests tr)" for x y
    by (simp add: requests_append)
  show ?thesis
    unfolding getVirtualMachineResourceID_def
    by (simp add: andThen_simps andThen_traceInfo andThen_exitOnEmptyString andThen_logFatalError
        NewRequest_def u r k k2 requests_append assms(3,4) compile_resource [OF assms(1)] find_resource ReadAll_def
        Fatalf_def index_def ret_def
        split: option.splits)
qed


section \<open>Steps 1 and 5 on an answer\<close>

lemma compile_h1: "MustCompile h1Pattern = Some h1Prog"
  by code_simp

lemma compile_systemMessage: "MustCompile systemMessagePattern = Some systemMessageProg"
  by code_simp

lemma compile_action: "MustCompile actionPattern = Some actionProg"
  by code_simp

lemma length_requests_trace:
  "length (requests (if c then tr @ [Logged x] else tr)) = length (requests tr)"
  by (simp add: requests_append)

lemma sendSnapshotRequest_run:
  assumes "ParseURL e (URL (snapshotRequest e fl token vmID actionID))"
  shows "sendSnapshotRequest e fl token vmID actionID tr =
     (case Do e (length (requests tr)) (snapshotRequest e fl token vmID actionID) of
        (_, Some x) \<Rightarrow> Fatal (Error x)
      | (None, None) \<Rightarrow> Panic NilDereference
      | (Some resp, None) \<Rightarrow>
          if StatusCode resp \<noteq> 201 then
            (if 1 < length (FindStringSubmatch h1Prog (Body resp))
             then Fatal (Error (FindStringSubmatch h1Prog (Body resp) ! 1))
             else Panic IndexOutOfRange)
          else if TrimSpace (Header_Get resp ''Location'') = []
          then Fatal (ZeroLengthString ''Resource Action Request URL'')
          else Ok (Header_Get resp ''Location''),
      (if trace fl then tr @ [Logged (''Step 5 - Send snapshot request for '' @ machineName fl)] else tr)
        @ [Sent (snapshotRequest e fl token vmID actionID)])"
proof -
  obtain r err where d: "Do e (length (requests tr)) (snapshotRequest e fl token vmID actionID) = (r, err)"
    by (cases "Do e (length (requests tr)) (snapshotRequest e fl token vmID actionID)")
  show ?thesis
  proof (cases err)
    case (Some x)
    with assms d show ?thesis
      unfolding sendSnapshotRequest_def snapshotRequest_def
      by (simp add: andThen_simps andThen_traceInfo andThen_logFatalError NewRequest_def
          Header_Set_def Header_Add_def length_requests_trace split: option.splits)
  next
    case None
    show ?thesis
    proof (cases r)
      case n: None
      with assms d None show ?thesis
        unfolding sendSnapshotRequest_def snapshotRequest_def
        by (simp add: andThen_simps andThen_traceInfo andThen_logFatalError NewRequest_def
            Header_Set_def Header_Add_def length_requests_trace)
    next
      case (Some resp)
      with assms d None show ?thesis
        unfolding sendSnapshotRequest_def snapshotRequest_def
        by (simp add: andThen_simps andThen_traceInfo andThen_logFatalError andThen_exitOnEmptyString
            NewRequest_def Header_Set_def Header_Add_def length_requests_trace compile_h1
            ReadAll_def Fatalf_def ret_def)
    qed
  qed
qed

lemma getBearerToken_run:
  assumes "ParseURL e (URL (tokenRequest e))"
  shows "getBearerToken e fl tr =
     (case Do e (length (requests tr)) (tokenRequest e) of
        (_, Some x) \<Rightarrow> Fatal (Error x)
      | (None, None) \<Rightarrow> Panic NilDereference
      | (Some resp, None) \<Rightarrow>
          if StatusCode resp \<noteq> 200 then
            (if 2 < length (FindStringSubmatch systemMessageProg (Body resp))
             then Fatal (UnexpectedStatus (StatusCode resp) (FindStringSubmatch systemMessageProg (Body resp) ! 2))
             else Panic IndexOutOfRange)
          else
            (case Unmarshal e (Body resp) of
               Inl x \<Rightarrow> Fatal (Error x)
             | Inr g \<Rightarrow>
                 if TrimSpace (ID g) = [] then Fatal (ZeroLengthString ''bearerToken'')
                 else Ok (''Bearer '' @ ID g)),
      (if trace fl then tr @ [Logged ''Step 1 - Get bearer token''] else tr)
        @ [Sent (tokenRequest e)])"
proof -
  obtain r err where d: "Do e (length (requests tr)) (tokenRequest e) = (r, err)"
    by (cases "Do e (length (requests tr)) (tokenRequest e)")
  show ?thesis
  proof (cases err)
    case (Some x)
    with assms d show ?thesis
      unfolding getBearerToken_def tokenRequest_def
      by (simp add: andThen_simps andThen_traceInfo andThen_logFatalError NewRequest_def
          Header_Set_def Header_Add_def length_requests_trace split: option.splits)
  next
    case None
    show ?thesis
    proof (cases r)
      case n: None
      with assms d None show ?thesis
        unfolding getBearerToken_def tokenRequest_def
        by (simp add: andThen_simps andThen_traceInfo andThen_logFatalError NewRequest_def
            Header_Set_def Header_Add_def length_requests_trace)
    next
      case (Some resp)
      with assms d None show ?thesis
        unfolding getBearerToken_def tokenRequest_def
        by (cases "Unmarshal e (Body resp)")
          (simp_all add: andThen_simps andThen_traceInfo andThen_logFatalError andThen_exitOnEmptyString
            NewRequest_def Header_Set_def Header_Add_def length_requests_trace compile_systemMessage
            ReadAll_def Fatalf_def ret_def)
    qed
  qed
qed


section \<open>Steps 2 and 3 on an answer\<close>

lemma getVirtualMachineResourceID_run:
  assumes "ParseURL e (URL (resourcesRequest e token))"
  shows "getVirtualMachineResourceID e fl token machine tr =
     (case Do e (length (requests tr)) (resourcesRequest e token) of
        (_, Some x) \<Rightarrow> Fatal (Error x)
      | (None, None) \<Rightarrow> Panic NilDereference
      | (Some resp, None) \<Rightarrow>
          if StatusCode resp \<noteq> 200 then
            (if 1 < length (FindStringSubmatch h1Prog (Body resp))
             then Fatal (Error (FindStringSubmatch h1Prog (Body resp) ! 1))
             else Panic IndexOutOfRange)
          else
            (case MustCompile (resourcePattern machine) of
               None \<Rightarrow> Unmodelled
             | Some re \<Rightarrow>
                 if FindStringSubmatch re (Body resp) = [] then Fatal (ResourceNotFound machine)
                 else if \<not> 1 < length (FindStringSubmatch re (Body resp)) then Panic IndexOutOfRange
                 else if TrimSpace (FindStringSubmatch re (Body resp) ! 1) = []
                 then Fatal (ZeroLengthString ''machineID'')
                 else Ok (FindStringSubmatch re (Body resp) ! 1)),
      (if trace fl then tr @ [Logged (''Step 2 - Get virtual machine resource ID for '' @ machine)] else tr)
        @ (case ParseForm e (resourcesRequest e token) of Some x \<Rightarrow> [Logged x] | None \<Rightarrow> [])
        @ [Sent (resourcesRequest e token)])"
proof -
  obtain r err where d: "Do e (length (requests tr)) (resourcesRequest e token) = (r, err)"
    by (cases "Do e (length (requests tr)) (resourcesRequest e token)")
  note s = andThen_simps andThen_traceInfo andThen_logFatalError andThen_exitOnEmptyString
    NewRequest_def Header_Set_def Header_Add_def requests_append compile_h1 ReadAll_def Fatalf_def
    ret_def index_def
  show ?thesis
  proof (cases "ParseForm e (resourcesRequest e token)")
    case pf: None
    show ?thesis
    proof (cases err)
      case (Some x)
      with assms d pf show ?thesis
        unfolding getVirtualMachineResourceID_def resourcesRequest_def
        by (simp add: s split: option.splits)
    next
      case None
      show ?thesis
      proof (cases r)
        case n: None
        with assms d None pf show ?thesis
          unfolding getVirtualMachineResourceID_def resourcesRequest_def
          by (simp add: s)
      next
        case (Some resp)
        with assms d None pf show ?thesis
          unfolding getVirtualMachineResourceID_def resourcesRequest_def
          by (cases "MustCompile (resourcePattern machine)") (simp_all add: s)
      qed
    qed
  next
    case pf: (Some y)
    show ?thesis
    proof (cases err)
      case (Some x)
      with assms d pf show ?thesis
        unfolding getVirtualMachineResourceID_def resourcesRequest_def
        by (simp add: s split: option.splits)
    next
      case None
      show ?thesis
      proof (cases r)
        case n: None
        with assms d None pf show ?thesis
          unfolding getVirtualMachineResourceID_def resourcesRequest_def
          by (simp add: s)
      next
        case (Some resp)
        with assms d None pf show ?thesis
          unfolding getVirtualMachineResourceID_def resourcesRequest_def
          by (cases "MustCompile (resourcePattern machine)") (simp_all add: s)
      qed
    qed
  qed
qed

lemma getSnapshotResourceActionID_run:
  assumes "ParseURL e (URL (actionsRequest e token vmID))"
  shows "getSnapshotResourceActionID e fl token vmID tr =
     (case Do e (length (requests tr)) (actionsRequest e token vmID) of
        (None, _) \<Rightarrow> Panic NilDereference
      | (Some resp, err) \<Rightarrow>
          if StatusCode resp \<noteq> 200 then
            (if 1 < length (FindStringSubmatch h1Prog (ReadAll resp err))
             then Fatal (Error (FindStringSubmatch h1Prog (ReadAll resp err) ! 1))
             else Panic IndexOutOfRange)
          else if FindStringSubmatch actionProg (ReadAll resp err) = [] then Fatal ActionNotFound
          else if \<not> 1 < length (FindStringSubmatch actionProg (ReadAll resp err))
          then Panic IndexOutOfRange
          else if TrimSpace (FindStringSubmatch actionProg (ReadAll resp err) ! 1) = []
          then Fatal (ZeroLengthString ''Create Snapshot Action ID'')
          else Ok (FindStringSubmatch actionProg (ReadAll resp err) ! 1),
      (if trace fl then tr @ [Logged (''Step 3 - Get snapshot resource action ID for '' @ machineName fl)] else tr)
        @ [Sent (actionsRequest e token vmID)]
        @ (case snd (Do e (length (requests tr)) (actionsRequest e token vmID)) of
             Some x \<Rightarrow> [Logged (''Failure :  '' @ x)] | None \<Rightarrow> []))"
proof -
  obtain r err where d: "Do e (length (requests tr)) (actionsRequest e token vmID) = (r, err)"
    by (cases "Do e (length (requests tr)) (actionsRequest e token vmID)")
  note s = andThen_simps andThen_traceInfo andThen_logFatalError andThen_exitOnEmptyString
    NewRequest_def Header_Set_def Header_Add_def requests_append compile_h1 compile_action
    Fatalf_def ret_def index_def
  show ?thesis
  proof (cases r)
    case None
    with assms d show ?thesis
      unfolding getSnapshotResourceActionID_def actionsRequest_def
      by (cases err) (simp_all add: s)
  next
    case (Some resp)
    with assms d show ?thesis
      unfolding getSnapshotResourceActionID_def actionsRequest_def
      by (cases err) (simp_all add: s)
  qed
qed


section \<open>The polling loop\<close>

lemma compile_state: "MustCompile statePattern = Some stateProg"
  by code_simp

lemma io_append: "io (xs @ ys) = io xs @ io ys"
  by (induction xs rule: io.induct) simp_all


lemma poll_state:
  assumes "stateName (Do e (length (requests tr)) req) = Some s"
  shows "\<exists>tr'. poll e fl req stateProg tr =
           (if s = ''Failed'' then Fatal SnapshotFailed
            else if s = ''Successful'' then Ok Break else Ok Continue, tr')
         \<and> io tr' = io tr @ [Slept 10, Sent req]
         \<and> requests tr' = requests tr @ [req]"
proof -
  obtain r err where d: "Do e (length (requests tr)) req = (r, err)"
    by (cases "Do e (length (requests tr)) req")
  from assms d obtain resp where r: "r = Some resp"
    by (cases r) (simp_all add: stateName_def)
  from assms d r have m: "1 < length (FindStringSubmatch stateProg (ReadAll resp err))"
    and s: "FindStringSubmatch stateProg (ReadAll resp err) ! 1 = s"
    by (simp_all add: stateName_def compile_state Let_def split: if_splits)
  show ?thesis
    unfolding poll_def
    using m s
    by (cases err)
      (simp_all add: andThen_simps andThen_traceInfo requests_append io_append d r Fatalf_def ret_def)
qed

lemma poll_no_state:
  assumes "stateName (Do e (length (requests tr)) req) = None"
  shows "\<exists>p tr'. poll e fl req stateProg tr = (Panic p, tr')"
proof -
  obtain r err where d: "Do e (length (requests tr)) req = (r, err)"
    by (cases "Do e (length (requests tr)) req")
  show ?thesis
  proof (cases r)
    case None
    then show ?thesis unfolding poll_def
      by (cases err) (simp_all add: andThen_simps requests_append d)
  next
    case (Some resp)
    with assms d have "\<not> 1 < length (FindStringSubmatch stateProg (ReadAll resp err))"
      by (simp add: stateName_def compile_state Let_def split: if_splits)
    then show ?thesis unfolding poll_def using Some
      by (cases err) (simp_all add: andThen_simps requests_append d)
  qed
qed


lemma polls_Suc: "polls req (Suc n) = [Slept 10, Sent req] @ polls req n"
  by (simp add: polls_def)

lemma polling_terminal:
  assumes "\<forall>i<n. pending (stateName (Do e (length (requests tr) + i) req))"
    and "stateName (Do e (length (requests tr) + n) req) = Some s"
    and "s = ''Failed'' \<or> s = ''Successful''"
  shows "\<exists>tr'. polling e fl req stateProg tr
             = Some (if s = ''Failed'' then Fatal SnapshotFailed else Ok (), tr')
           \<and> io tr' = io tr @ polls req (Suc n)"
  using assms
proof (induction n arbitrary: tr)
  case 0
  then have "stateName (Do e (length (requests tr)) req) = Some s" by simp
  from poll_state [OF this, of fl] obtain tr' where
    p: "poll e fl req stateProg tr =
          (if s = ''Failed'' then Fatal SnapshotFailed
           else if s = ''Successful'' then Ok Break else Ok Continue, tr')"
    and i: "io tr' = io tr @ [Slept 10, Sent req]"
    by blast
  from "0.prems"(3) p have "polling e fl req stateProg tr
      = Some (if s = ''Failed'' then Fatal SnapshotFailed else Ok (), tr')"
    by (subst polling.simps) auto
  with i show ?case by (simp add: polls_def)
next
  case (Suc n)
  from Suc.prems(1) have "pending (stateName (Do e (length (requests tr) + 0) req))"
    by blast
  then obtain s0 where s0: "stateName (Do e (length (requests tr)) req) = Some s0"
    and n0: "s0 \<noteq> ''Failed''" "s0 \<noteq> ''Successful''"
    by (auto simp: pending_def split: option.splits)
  from poll_state [OF s0, of fl] n0 obtain tr1 where
    p: "poll e fl req stateProg tr = (Ok Continue, tr1)"
    and i: "io tr1 = io tr @ [Slept 10, Sent req]"
    and r: "requests tr1 = requests tr @ [req]"
    by auto
  have a: "\<forall>i<n. pending (stateName (Do e (length (requests tr1) + i) req))"
    using Suc.prems(1) by (auto simp: r)
  have b: "stateName (Do e (length (requests tr1) + n) req) = Some s"
    using Suc.prems(2) by (simp add: r)
  from Suc.IH [OF a b Suc.prems(3)] obtain tr' where
    q: "polling e fl req stateProg tr1
          = Some (if s = ''Failed'' then Fatal SnapshotFailed else Ok (), tr')"
    and j: "io tr' = io tr1 @ polls req (Suc n)"
    by blast
  have "polling e fl req stateProg tr = polling e fl req stateProg tr1"
    by (subst polling.simps) (simp add: p)
  with q i j show ?case
    by (simp add: polls_Suc [of req "Suc n"])
qed

lemma polling_returns:
  assumes "polling e fl req re tr = Some y"
  shows "re = stateProg \<longrightarrow> (\<exists>i. \<not> pending (stateName (Do e (length (requests tr) + i) req)))"
proof (rule polling.raw_induct
    [where P = "\<lambda>e fl req re tr y. re = stateProg \<longrightarrow>
       (\<exists>i. \<not> pending (stateName (Do e (length (requests tr) + i) req)))", OF _ assms])
  fix polling' :: "env \<Rightarrow> flags \<Rightarrow> request \<Rightarrow> regexp \<Rightarrow> unit run"
    and e fl req re tr y
  assume IH: "\<And>e fl req re tr y. polling' e fl req re tr = Some y \<Longrightarrow>
      re = stateProg \<longrightarrow> (\<exists>i. \<not> pending (stateName (Do e (length (requests tr) + i) req)))"
    and body: "(case poll e fl req re tr of
        (Ok Continue, tr') \<Rightarrow> polling' e fl req re tr'
      | (Ok Break, tr') \<Rightarrow> Some (Ok (), tr')
      | (Fatal f, tr') \<Rightarrow> Some (Fatal f, tr')
      | (Panic p, tr') \<Rightarrow> Some (Panic p, tr')
      | (Unmodelled, tr') \<Rightarrow> Some (Unmodelled, tr')) = Some y"
  show "re = stateProg \<longrightarrow> (\<exists>i. \<not> pending (stateName (Do e (length (requests tr) + i) req)))"
  proof
    assume re: "re = stateProg"
    show "\<exists>i. \<not> pending (stateName (Do e (length (requests tr) + i) req))"
    proof (cases "pending (stateName (Do e (length (requests tr)) req))")
      case False
      then have "\<not> pending (stateName (Do e (length (requests tr) + 0) req))" by simp
      then show ?thesis by blast
    next
      case True
      then obtain s0 where s0: "stateName (Do e (length (requests tr)) req) = Some s0"
        and n0: "s0 \<noteq> ''Failed''" "s0 \<noteq> ''Successful''"
        by (auto simp: pending_def split: option.splits)
      from poll_state [OF s0, of fl] n0 obtain tr1 where
        p: "poll e fl req stateProg tr = (Ok Continue, tr1)"
        and r: "requests tr1 = requests tr @ [req]"
        by auto
      from body p re have "polling' e fl req re tr1 = Some y" by simp
      from IH [OF this] re obtain i where
        "\<not> pending (stateName (Do e (length (requests tr1) + i) req))" by blast
      then have "\<not> pending (stateName (Do e (length (requests tr) + Suc i) req))"
        by (simp add: r)
      then show ?thesis by blast
    qed
  qed
qed

lemma polling_forever:
  assumes "\<forall>i. pending (stateName (Do e (length (requests tr) + i) req))"
  shows "polling e fl req stateProg tr = None"
proof (cases "polling e fl req stateProg tr")
  case None
  then show ?thesis .
next
  case (Some y)
  from polling_returns [OF this] assms show ?thesis by blast
qed

lemma thenRun_lift:
  "thenRun (lift m) f tr =
     (case m tr of
        (Ok x, tr') \<Rightarrow> f x tr'
      | (Fatal a, tr') \<Rightarrow> Some (Fatal a, tr')
      | (Panic p, tr') \<Rightarrow> Some (Panic p, tr')
      | (Unmodelled, tr') \<Rightarrow> Some (Unmodelled, tr'))"
  by (simp add: thenRun_def lift_def)

lemma getRequestResultState_polling:
  assumes "ParseURL e url"
  shows "getRequestResultState e fl token url tr =
           polling e fl (statusRequest token url) stateProg
             (if trace fl then tr @ [Logged ''Step 6 - Get snapshot request status...''] else tr)"
proof -
  have r: "Header_Add (Header_Add (Header_Add
             \<lparr>Method = ''GET'', URL = url, ReqHeader = [], ReqBody = NoBody\<rparr>
             ''Content-Type'' ''application/json;charset=UTF-8'')
             ''Accept'' ''application/json;charset=UTF-8'') ''Authorization'' token
           = statusRequest token url"
    by (simp add: Header_Add_def statusRequest_def)
  show ?thesis
    unfolding getRequestResultState_def
    by (simp add: thenRun_lift traceInfo_def Println_def ret_def deref_def NewRequest_def assms r
        regexp_MustCompile_def compile_state)
qed


section \<open>The run up to step 4\<close>

lemma andThen_Ok:
  assumes "andThen m f tr = (Ok y, tr')"
  obtains x tr1 where "m tr = (Ok x, tr1)" and "f x tr1 = (Ok y, tr')"
proof -
  obtain r tr1 where m: "m tr = (r, tr1)" by (cases "m tr")
  with assms obtain x where "r = Ok x"
    by (cases r) (simp_all add: andThen_def)
  with assms m that show ?thesis by (simp add: andThen_def)
qed

lemma validateConfig_trace: "snd (validateConfig e tr) = tr"
  unfolding validateConfig_def
  by (simp add: andThen_def fileExists_def exitOnEmptyString_def Fatalf_def ret_def
      split: stat.splits)

lemma traceInfo_io:
  "traceInfo fl s tr = (r, tr') \<Longrightarrow> io tr' = io tr \<and> requests tr' = requests tr"
  by (auto simp: traceInfo_def Println_def ret_def io_append requests_append split: if_splits)

lemma getBearerToken_Ok:
  assumes "getBearerToken e fl tr = (Ok tok, tr')"
  shows "io tr' = io tr @ [Sent (tokenRequest e)] \<and> requests tr' = requests tr @ [tokenRequest e]"
proof (cases "ParseURL e (URL (tokenRequest e))")
  case True
  from assms show ?thesis
    unfolding getBearerToken_run [OF True]
    by (auto simp: io_append requests_append)
next
  case False
  then have "fst (getBearerToken e fl tr) = Panic NilDereference"
    unfolding getBearerToken_def tokenRequest_def
    by (simp add: andThen_simps andThen_traceInfo NewRequest_def)
  with assms show ?thesis by simp
qed

lemma getVirtualMachineResourceID_Ok:
  assumes "getVirtualMachineResourceID e fl tok machine tr = (Ok vm, tr')"
  shows "io tr' = io tr @ [Sent (resourcesRequest e tok)]
         \<and> requests tr' = requests tr @ [resourcesRequest e tok]"
proof (cases "ParseURL e (URL (resourcesRequest e tok))")
  case True
  from assms show ?thesis
    unfolding getVirtualMachineResourceID_run [OF True]
    by (auto simp: io_append requests_append split: option.splits)
next
  case False
  then have "fst (getVirtualMachineResourceID e fl tok machine tr) = Panic NilDereference"
    unfolding getVirtualMachineResourceID_def resourcesRequest_def
    by (simp add: andThen_simps andThen_traceInfo NewRequest_def)
  with assms show ?thesis by simp
qed

lemma getSnapshotResourceActionID_Ok:
  assumes "getSnapshotResourceActionID e fl tok vm tr = (Ok act, tr')"
  shows "io tr' = io tr @ [Sent (actionsRequest e tok vm)]
         \<and> requests tr' = requests tr @ [actionsRequest e tok vm]"
proof (cases "ParseURL e (URL (actionsRequest e tok vm))")
  case True
  from assms show ?thesis
    unfolding getSnapshotResourceActionID_run [OF True]
    by (auto simp: io_append requests_append split: option.splits)
next
  case False
  then have "fst (getSnapshotResourceActionID e fl tok vm tr) = Panic NilDereference"
    unfolding getSnapshotResourceActionID_def actionsRequest_def
    by (simp add: andThen_simps andThen_traceInfo NewRequest_def)
  with assms show ?thesis by simp
qed

lemma preparation_Ok:
  assumes "preparation e fl tr = (Ok (tok, vm, act), tr1)"
  shows "io tr1 = io tr @ [Sent (tokenRequest e), Sent (resourcesRequest e tok), Sent (actionsRequest e tok vm)]
         \<and> requests tr1 = requests tr @ [tokenRequest e, resourcesRequest e tok, actionsRequest e tok vm]"
proof -
  from assms [unfolded preparation_def] obtain u ta where
    v: "validateConfig e tr = (Ok u, ta)" and
    r1: "andThen (traceInfo fl (''Creating snapshot of virtual machine \"'' @ machineName fl
                @ ''\" for tenant \"'' @ GetString e ''tenant'' @ ''\"'')) (\<lambda>_.
     andThen (getBearerToken e fl) (\<lambda>bearerToken.
     andThen (getVirtualMachineResourceID e fl bearerToken (machineName fl)) (\<lambda>virtualMachineID.
     andThen (getSnapshotResourceActionID e fl bearerToken virtualMachineID) (\<lambda>snapshotActionID.
     andThen (getResourceActionTemplate fl) (\<lambda>_.
     ret (bearerToken, virtualMachineID, snapshotActionID)))))) ta = (Ok (tok, vm, act), tr1)"
    by (rule andThen_Ok)
  from v validateConfig_trace [of e tr] have ta: "ta = tr" by simp
  from r1 obtain u2 tb where
    t: "traceInfo fl (''Creating snapshot of virtual machine \"'' @ machineName fl
                @ ''\" for tenant \"'' @ GetString e ''tenant'' @ ''\"'') ta = (Ok u2, tb)" and
    r2: "andThen (getBearerToken e fl) (\<lambda>bearerToken.
     andThen (getVirtualMachineResourceID e fl bearerToken (machineName fl)) (\<lambda>virtualMachineID.
     andThen (getSnapshotResourceActionID e fl bearerToken virtualMachineID) (\<lambda>snapshotActionID.
     andThen (getResourceActionTemplate fl) (\<lambda>_.
     ret (bearerToken, virtualMachineID, snapshotActionID))))) tb = (Ok (tok, vm, act), tr1)"
    by (rule andThen_Ok)
  from r2 obtain tok' tc where
    b: "getBearerToken e fl tb = (Ok tok', tc)" and
    r3: "andThen (getVirtualMachineResourceID e fl tok' (machineName fl)) (\<lambda>virtualMachineID.
     andThen (getSnapshotResourceActionID e fl tok' virtualMachineID) (\<lambda>snapshotActionID.
     andThen (getResourceActionTemplate fl) (\<lambda>_.
     ret (tok', virtualMachineID, snapshotActionID)))) tc = (Ok (tok, vm, act), tr1)"
    by (rule andThen_Ok)
  from r3 obtain vm' td where
    m: "getVirtualMachineResourceID e fl tok' (machineName fl) tc = (Ok vm', td)" and
    r4: "andThen (getSnapshotResourceActionID e fl tok' vm') (\<lambda>snapshotActionID.
     andThen (getResourceActionTemplate fl) (\<lambda>_.
     ret (tok', vm', snapshotActionID))) td = (Ok (tok, vm, act), tr1)"
    by (rule andThen_Ok)
  from r4 obtain act' te where
    a: "getSnapshotResourceActionID e fl tok' vm' td = (Ok act', te)" and
    r5: "andThen (getResourceActionTemplate fl) (\<lambda>_. ret (tok', vm', act')) te = (Ok (tok, vm, act), tr1)"
    by (rule andThen_Ok)
  from r5 obtain u3 tf where
    g: "getResourceActionTemplate fl te = (Ok u3, tf)" and
    r6: "ret (tok', vm', act') tf = (Ok (tok, vm, act), tr1)"
    by (rule andThen_Ok)
  from r6 have eq: "tok' = tok" "vm' = vm" "act' = act" "tf = tr1"
    by (simp_all add: ret_def)
  from traceInfo_io [OF t] traceInfo_io [OF g [unfolded getResourceActionTemplate_def]]
    getBearerToken_Ok [OF b] getVirtualMachineResourceID_Ok [OF m]
    getSnapshotResourceActionID_Ok [OF a] ta eq
  show ?thesis by simp
qed

lemma thenRun_lift_andThen:
  "thenRun (lift (andThen m f)) g = thenRun (lift m) (\<lambda>x. thenRun (lift (f x)) g)"
  by (auto simp: thenRun_def lift_def andThen_def fun_eq_iff split: prod.splits result.splits)

lemma thenRun_lift_ret: "thenRun (lift (ret x)) g = g x"
  by (simp add: thenRun_def lift_def ret_def fun_eq_iff)

lemma Run_preparation:
  \<open>Run e fl =
     thenRun (lift (preparation e fl)) (\<lambda>(bearerToken, virtualMachineID, snapshotActionID).
     thenRun (if \<not> dryRun fl then
                thenRun (lift (sendSnapshotRequest e fl bearerToken virtualMachineID snapshotActionID))
                  (\<lambda>requestStatusURL.
                getRequestResultState e fl bearerToken requestStatusURL)
              else
                thenRun (lift (traceInfo fl ''Step 5 - Skipped because of dry-run'')) (\<lambda>_.
                lift (traceInfo fl ''Step 6 - Skipped because of dry-run''))) (\<lambda>_.
     lift (traceInfo fl ''Bye from makeSnapshot'')))\<close>
  unfolding Run_def preparation_def
  by (simp only: thenRun_lift_andThen thenRun_lift_ret prod.case)

lemma Run_after_preparation:
  assumes "preparation e fl tr = (Ok (tok, vm, act), tr1)"
  shows "Run e fl tr =
     thenRun (if \<not> dryRun fl then
                thenRun (lift (sendSnapshotRequest e fl tok vm act))
                  (\<lambda>requestStatusURL. getRequestResultState e fl tok requestStatusURL)
              else
                thenRun (lift (traceInfo fl ''Step 5 - Skipped because of dry-run'')) (\<lambda>_.
                lift (traceInfo fl ''Step 6 - Skipped because of dry-run'')))
       (\<lambda>_. lift (traceInfo fl ''Bye from makeSnapshot'')) tr1"
  unfolding Run_preparation by (simp add: thenRun_lift assms)


section \<open>When a pattern matches\<close>





























lemma resourceEntry_parts:
  assumes "resourceEntry machine t"
  shows "\<exists>id ty x rest. t = entryHead @ id @ ty @ x @ machine @ entryTail @ rest
           \<and> id = entryId t \<and> length id = 36 \<and> newline \<notin> set id \<and> like entryType ty
           \<and> length x = 3 \<and> newline \<notin> set x"
proof -
  define t1 where "t1 = drop (length entryHead) t"
  define t2 where "t2 = drop 36 t1"
  define t3 where "t3 = drop (length entryType) t2"
  define r where "r = drop 3 t3"
  have d2: "drop (length entryHead + 36) t = t2"
    unfolding t2_def t1_def by (simp add: add.commute)
  have d3: "drop (length entryHead + 36 + length entryType) t = t3"
    unfolding t3_def d2 [symmetric] by (simp add: add.commute)
  have d4: "drop (length entryHead + 36 + length entryType + 3) t = r"
    unfolding r_def d3 [symmetric] by (simp add: add.commute)
  from assms have a: "prefix entryHead t" "length (take 36 t1) = 36" "newline \<notin> set (take 36 t1)"
    "like entryType (take (length entryType) t2)" "length (take 3 t3) = 3"
    "newline \<notin> set (take 3 t3)" "prefix (machine @ entryTail) r"
    unfolding resourceEntry_def Let_def d2 d3 d4 t1_def [symmetric] by blast+
  from a(1) have e1: "t = entryHead @ t1"
    unfolding t1_def by (auto simp: prefix_def)
  have e2: "t1 = take 36 t1 @ t2"
    unfolding t2_def by simp
  have e3: "t2 = take (length entryType) t2 @ t3"
    unfolding t3_def by simp
  have e4: "t3 = take 3 t3 @ r"
    unfolding r_def by simp
  from a(7) obtain rest where e5: "r = (machine @ entryTail) @ rest"
    by (rule prefixE)
  have "t = entryHead @ take 36 t1 @ take (length entryType) t2 @ take 3 t3 @ machine @ entryTail @ rest"
    using e1 e2 e3 e4 e5 by (metis append.assoc)
  moreover have "take 36 t1 = entryId t"
    by (simp add: entryId_def t1_def)
  ultimately show ?thesis using a(2-6) by blast
qed


section \<open>The claims\<close>

text \<open>
  C1. The status poller sleeps 10 seconds before every poll, the first included. It
  returns normally (exit status 0) at the first answer whose state name is Successful
  and ends the run fatally (exit status 1) at the first whose state name is Failed,
  after \<open>n + 1\<close> polls when \<open>n\<close> answers with other state names came before; no
  number of polls is too large, and when no answer is terminal the loop never returns.
  For the answers In Progress, In Progress, Successful the run exits 0 after exactly 3
  polls; for In Progress, Failed it exits 1 after exactly 2.
\<close>

theorem poller_until_terminal_state:
  fixes e :: env and fl :: flags and token url :: string and tr :: "event list" and n :: nat
  defines "req \<equiv> statusRequest token url"
  defines "a \<equiv> (\<lambda>i. stateName (answer e tr req i))"
  assumes url: "ParseURL e url"
  shows
    "((\<forall>i<n. pending (a i)) \<and> a n = Some ''Successful'' \<longrightarrow>
        (\<exists>r tr'. getRequestResultState e fl token url tr = Some (r, tr') \<and> r = Ok ()
           \<and> exitStatus r = Some 0 \<and> io tr' = io tr @ polls req (Suc n)))
     \<and> ((\<forall>i<n. pending (a i)) \<and> a n = Some ''Failed'' \<longrightarrow>
        (\<exists>r tr'. getRequestResultState e fl token url tr = Some (r, tr') \<and> r = Fatal SnapshotFailed
           \<and> exitStatus r = Some 1 \<and> io tr' = io tr @ polls req (Suc n)))
     \<and> ((\<forall>i. pending (a i)) \<longrightarrow> getRequestResultState e fl token url tr = None)
     \<and> (a 0 = Some ''In Progress'' \<and> a 1 = Some ''In Progress'' \<and> a 2 = Some ''Successful'' \<longrightarrow>
        (\<exists>r tr'. getRequestResultState e fl token url tr = Some (r, tr') \<and> exitStatus r = Some 0
           \<and> io tr' = io tr @ [Slept 10, Sent req, Slept 10, Sent req, Slept 10, Sent req]))
     \<and> (a 0 = Some ''In Progress'' \<and> a 1 = Some ''Failed'' \<longrightarrow>
        (\<exists>r tr'. getRequestResultState e fl token url tr = Some (r, tr') \<and> exitStatus r = Some 1
           \<and> io tr' = io tr @ [Slept 10, Sent req, Slept 10, Sent req]))"
proof -
  define tr0 where "tr0 = (if trace fl then tr @ [Logged ''Step 6 - Get snapshot request status...''] else tr)"
  have g: "getRequestResultState e fl token url tr = polling e fl req stateProg tr0"
    unfolding tr0_def req_def by (rule getRequestResultState_polling [OF url])
  have k: "length (requests tr0) = length (requests tr)" and i0: "io tr0 = io tr"
    by (simp_all add: tr0_def requests_append io_append)
  have a: "a i = stateName (Do e (length (requests tr0) + i) req)" for i
    by (simp add: a_def answer_def k)
  have fin: "\<exists>tr'. getRequestResultState e fl token url tr
                  = Some (if s = ''Failed'' then Fatal SnapshotFailed else Ok (), tr')
                \<and> io tr' = io tr @ polls req (Suc m)"
    if "\<forall>i<m. pending (a i)" and "a m = Some s" and "s = ''Failed'' \<or> s = ''Successful''"
    for m s
    using polling_terminal [of m e tr0 req s fl] that by (simp add: a g i0)
  have c1: "(\<forall>i<n. pending (a i)) \<and> a n = Some ''Successful'' \<longrightarrow>
        (\<exists>r tr'. getRequestResultState e fl token url tr = Some (r, tr') \<and> r = Ok ()
           \<and> exitStatus r = Some 0 \<and> io tr' = io tr @ polls req (Suc n))"
    using fin [of n "''Successful''"] by auto
  have c2: "(\<forall>i<n. pending (a i)) \<and> a n = Some ''Failed'' \<longrightarrow>
        (\<exists>r tr'. getRequestResultState e fl token url tr = Some (r, tr') \<and> r = Fatal SnapshotFailed
           \<and> exitStatus r = Some 1 \<and> io tr' = io tr @ polls req (Suc n))"
    using fin [of n "''Failed''"] by auto
  have c3: "(\<forall>i. pending (a i)) \<longrightarrow> getRequestResultState e fl token url tr = None"
    using polling_forever [of e tr0 req fl] by (simp add: a g)
  have p: "pending (Some ''In Progress'')"
    by (simp add: pending_def)
  have lt2: "i < 2 \<longleftrightarrow> i = 0 \<or> i = 1" and lt1: "i < 1 \<longleftrightarrow> i = 0" for i :: nat
    by auto
  have c4: "a 0 = Some ''In Progress'' \<and> a 1 = Some ''In Progress'' \<and> a 2 = Some ''Successful'' \<longrightarrow>
        (\<exists>r tr'. getRequestResultState e fl token url tr = Some (r, tr') \<and> exitStatus r = Some 0
           \<and> io tr' = io tr @ [Slept 10, Sent req, Slept 10, Sent req, Slept 10, Sent req])"
  proof
    assume h: "a 0 = Some ''In Progress'' \<and> a 1 = Some ''In Progress'' \<and> a 2 = Some ''Successful''"
    then have "\<forall>i<2. pending (a i)" using p by (auto simp: lt2)
    from fin [OF this, of "''Successful''"] h
    show "\<exists>r tr'. getRequestResultState e fl token url tr = Some (r, tr') \<and> exitStatus r = Some 0
           \<and> io tr' = io tr @ [Slept 10, Sent req, Slept 10, Sent req, Slept 10, Sent req]"
      by (auto simp: polls_def numeral_3_eq_3)
  qed
  have c5: "a 0 = Some ''In Progress'' \<and> a 1 = Some ''Failed'' \<longrightarrow>
        (\<exists>r tr'. getRequestResultState e fl token url tr = Some (r, tr') \<and> exitStatus r = Some 1
           \<and> io tr' = io tr @ [Slept 10, Sent req, Slept 10, Sent req])"
  proof
    assume h: "a 0 = Some ''In Progress'' \<and> a 1 = Some ''Failed''"
    then have "\<forall>i<1. pending (a i)" using p by (auto simp: lt1)
    from fin [OF this, of "''Failed''"] h
    show "\<exists>r tr'. getRequestResultState e fl token url tr = Some (r, tr') \<and> exitStatus r = Some 1
           \<and> io tr' = io tr @ [Slept 10, Sent req, Slept 10, Sent req]"
      by (auto simp: polls_def numeral_2_eq_2)
  qed
  from c1 c2 c3 c4 c5 show ?thesis by blast
qed

theorem poller_until_terminal_state_witness:
  "(\<exists>r tr'. getRequestResultState
        (exampleEnv [replied 200 (stateBody ''In Progress''), replied 200 (stateBody ''In Progress''),
                     replied 200 (stateBody ''Successful'')] refused)
        exampleFlags ''Bearer t0k3n'' ''https://vra.example.org/requests/7'' [] = Some (r, tr')
      \<and> r = Ok () \<and> exitStatus r = Some 0
      \<and> io tr' = polls (statusRequest ''Bearer t0k3n'' ''https://vra.example.org/requests/7'') 3)
   \<and> (\<exists>r tr'. getRequestResultState
        (exampleEnv [replied 200 (stateBody ''In Progress''), replied 200 (stateBody ''Failed'')] refused)
        exampleFlags ''Bearer t0k3n'' ''https://vra.example.org/requests/7'' [] = Some (r, tr')
      \<and> r = Fatal SnapshotFailed \<and> exitStatus r = Some 1
      \<and> io tr' = polls (statusRequest ''Bearer t0k3n'' ''https://vra.example.org/requests/7'') 2)
   \<and> getRequestResultState (exampleEnv [] (replied 200 (stateBody ''In Progress'')))
        exampleFlags ''Bearer t0k3n'' ''https://vra.example.org/requests/7'' [] = None"
proof -
  let ?url = "''https://vra.example.org/requests/7''"
  let ?req = "statusRequest ''Bearer t0k3n'' ?url"
  let ?e1 = "exampleEnv [replied 200 (stateBody ''In Progress''), replied 200 (stateBody ''In Progress''),
                     replied 200 (stateBody ''Successful'')] refused"
  let ?e2 = "exampleEnv [replied 200 (stateBody ''In Progress''), replied 200 (stateBody ''Failed'')] refused"
  let ?e3 = "exampleEnv [] (replied 200 (stateBody ''In Progress''))"
  have u: "ParseURL (exampleEnv as d) ?url" for as d
    by (simp add: exampleEnv_def)
  have a1: "stateName (answer ?e1 [] ?req 0) = Some ''In Progress''"
    "stateName (answer ?e1 [] ?req 1) = Some ''In Progress''"
    "stateName (answer ?e1 [] ?req 2) = Some ''Successful''"
    by code_simp+
  have a2: "stateName (answer ?e2 [] ?req 0) = Some ''In Progress''"
    "stateName (answer ?e2 [] ?req 1) = Some ''Failed''"
    by code_simp+
  have d3: "answer ?e3 [] ?req i = replied 200 (stateBody ''In Progress'')" for i
    by (simp add: answer_def exampleEnv_def)
  have "pending (stateName (replied 200 (stateBody ''In Progress'')))"
    by code_simp
  then have a3: "\<forall>i. pending (stateName (answer ?e3 [] ?req i))"
    by (simp add: d3)
  have p: "pending (Some ''In Progress'')"
    by (simp add: pending_def)
  have lt2: "i < 2 \<longleftrightarrow> i = 0 \<or> i = 1" and lt1: "i < 1 \<longleftrightarrow> i = 0" for i :: nat
    by auto
  have b1: "\<forall>i<2. pending (stateName (answer ?e1 [] ?req i))"
    using p a1 by (auto simp: lt2)
  have b2: "\<forall>i<1. pending (stateName (answer ?e2 [] ?req i))"
    using p a2 by (auto simp: lt1)
  note t1 = poller_until_terminal_state
    [where e = ?e1 and fl = exampleFlags and token = "''Bearer t0k3n''" and url = ?url
       and tr = "[]" and n = 2, OF u]
  note t2 = poller_until_terminal_state
    [where e = ?e2 and fl = exampleFlags and token = "''Bearer t0k3n''" and url = ?url
       and tr = "[]" and n = 1, OF u]
  note t3 = poller_until_terminal_state
    [where e = ?e3 and fl = exampleFlags and token = "''Bearer t0k3n''" and url = ?url
       and tr = "[]" and n = 0, OF u]
  have w1: "\<exists>r tr'. getRequestResultState ?e1 exampleFlags ''Bearer t0k3n'' ?url [] = Some (r, tr')
      \<and> r = Ok () \<and> exitStatus r = Some 0 \<and> io tr' = polls ?req 3"
    using t1 b1 a1(3) by (simp add: numeral_3_eq_3)
  have w2: "\<exists>r tr'. getRequestResultState ?e2 exampleFlags ''Bearer t0k3n'' ?url [] = Some (r, tr')
      \<and> r = Fatal SnapshotFailed \<and> exitStatus r = Some 1 \<and> io tr' = polls ?req 2"
    using t2 b2 a2(2) by (simp add: numeral_2_eq_2)
  have w3: "getRequestResultState ?e3 exampleFlags ''Bearer t0k3n'' ?url [] = None"
    using t3 a3 by blast
  from w1 w2 w3 show ?thesis by blast
qed

text \<open>
  C4. The payload that the request submitter sends carries
  \<^verbatim>\<open>"provider-deleteExisting": false\<close> when keepExisting is set and
  \<^verbatim>\<open>"provider-deleteExisting": true\<close> when it is not: the field is the negation of
  the flag, and the text around it, with the tenant in it, is the same in both modes.
\<close>

theorem payload_deleteExisting_flag:
  assumes "ParseURL e (URL (snapshotRequest e fl token vmID actionID))"
  shows \<open>\<exists>req. requests (snd (sendSnapshotRequest e fl token vmID actionID tr)) = requests tr @ [req]
     \<and> ReqBody req = Bytes
         (''{"type": "com.vmware.vcac.catalog.domain.request.CatalogResourceRequest","data": {"provider-existingSnapshotName": null,"provider-deleteExisting": ''
          @ (if keepExisting fl then ''false'' else ''true'')
          @ '',"provider-description": "Snapshotdescription","provider-name": "Snapshot name","provider-__ASD_PRESENTATION_INSTANCE": null,"provider-__asd_tenantRef": "''
          @ GetString e ''tenant'' @ ''"},"description": "makeSnapshot call"}'')\<close>
proof -
  have "requests (snd (sendSnapshotRequest e fl token vmID actionID tr))
          = requests tr @ [snapshotRequest e fl token vmID actionID]"
    unfolding sendSnapshotRequest_run [OF assms] by (simp add: requests_append)
  moreover have \<open>ReqBody (snapshotRequest e fl token vmID actionID) = Bytes
         (''{"type": "com.vmware.vcac.catalog.domain.request.CatalogResourceRequest","data": {"provider-existingSnapshotName": null,"provider-deleteExisting": ''
          @ (if keepExisting fl then ''false'' else ''true'')
          @ '',"provider-description": "Snapshotdescription","provider-name": "Snapshot name","provider-__ASD_PRESENTATION_INSTANCE": null,"provider-__asd_tenantRef": "''
          @ GetString e ''tenant'' @ ''"},"description": "makeSnapshot call"}'')\<close>
    by (simp add: snapshotRequest_def snapshotJSON_def)
  ultimately show ?thesis by blast
qed

theorem payload_deleteExisting_flag_witness:
  \<open>(\<exists>req. requests (snd (sendSnapshotRequest (exampleEnv [] refused) (exampleFlags\<lparr>keepExisting := True\<rparr>)
              ''Bearer t0k3n'' ''vm-1'' ''act-1'' [])) = [req]
     \<and> ReqBody req = Bytes ''{"type": "com.vmware.vcac.catalog.domain.request.CatalogResourceRequest","data": {"provider-existingSnapshotName": null,"provider-deleteExisting": false,"provider-description": "Snapshotdescription","provider-name": "Snapshot name","provider-__ASD_PRESENTATION_INSTANCE": null,"provider-__asd_tenantRef": "acme"},"description": "makeSnapshot call"}'')
   \<and> (\<exists>req. requests (snd (sendSnapshotRequest (exampleEnv [] refused) exampleFlags
              ''Bearer t0k3n'' ''vm-1'' ''act-1'' [])) = [req]
     \<and> ReqBody req = Bytes ''{"type": "com.vmware.vcac.catalog.domain.request.CatalogResourceRequest","data": {"provider-existingSnapshotName": null,"provider-deleteExisting": true,"provider-description": "Snapshotdescription","provider-name": "Snapshot name","provider-__ASD_PRESENTATION_INSTANCE": null,"provider-__asd_tenantRef": "acme"},"description": "makeSnapshot call"}'')\<close>
proof -
  have u: "ParseURL (exampleEnv [] refused) x" for x
    by (simp add: exampleEnv_def)
  have t: "GetString (exampleEnv [] refused) ''tenant'' = ''acme''"
    by code_simp
  have k: "keepExisting (exampleFlags\<lparr>keepExisting := True\<rparr>)" "\<not> keepExisting exampleFlags"
    by (simp_all add: exampleFlags_def)
  show ?thesis
    using payload_deleteExisting_flag [OF u, of "exampleFlags\<lparr>keepExisting := True\<rparr>" "''Bearer t0k3n''" "''vm-1''" "''act-1''" "[]"]
      payload_deleteExisting_flag [OF u, of exampleFlags "''Bearer t0k3n''" "''vm-1''" "''act-1''" "[]"]
    by (simp add: t k)
qed

text \<open>
  C6. When one of the settings baseURL, tenant, domain, userName, password is missing,
  empty or white space, the run ends with a non-zero exit status in validateConfig:
  nothing has been sent or logged, the events of the run are what they were before.
\<close>

theorem missing_setting_stops_before_network:
  assumes "k \<in> set [''baseURL'', ''tenant'', ''domain'', ''userName'', ''password'']"
    and "TrimSpace (GetString e k) = []"
  shows "\<exists>r. Run e fl tr = Some (r, tr) \<and> (exitStatus r = Some 1 \<or> exitStatus r = Some 2)"
proof -
  have "\<exists>r. validateConfig e tr = (r, tr) \<and> (exitStatus r = Some 1 \<or> exitStatus r = Some 2)"
    using assms unfolding validateConfig_def
    by (cases "Stat e (ConfigFileUsed e)")
      (auto simp: andThen_def fileExists_def exitOnEmptyString_def Fatalf_def ret_def)
  then obtain r where v: "validateConfig e tr = (r, tr)"
    and x: "exitStatus r = Some 1 \<or> exitStatus r = Some 2"
    by blast
  from x have "Run e fl tr = Some (r, tr)"
    unfolding Run_def by (cases r) (simp_all add: thenRun_lift v)
  with x show ?thesis by blast
qed

theorem missing_setting_stops_before_network_witness:
  "TrimSpace (GetString ((exampleEnv prepared refused)\<lparr>viper := exampleSettings(''password'' \<mapsto> ''  '')\<rparr>) ''password'') = []
   \<and> (\<exists>r. Run ((exampleEnv prepared refused)\<lparr>viper := exampleSettings(''password'' \<mapsto> ''  '')\<rparr>) exampleFlags []
            = Some (r, []) \<and> (exitStatus r = Some 1 \<or> exitStatus r = Some 2))
   \<and> TrimSpace (GetString ((exampleEnv prepared refused)\<lparr>viper := Map.empty\<rparr>) ''baseURL'') = []
   \<and> (\<exists>r. Run ((exampleEnv prepared refused)\<lparr>viper := Map.empty\<rparr>) exampleFlags []
            = Some (r, []) \<and> (exitStatus r = Some 1 \<or> exitStatus r = Some 2))"
proof -
  let ?e1 = "(exampleEnv prepared refused)\<lparr>viper := exampleSettings(''password'' \<mapsto> ''  '')\<rparr>"
  let ?e2 = "(exampleEnv prepared refused)\<lparr>viper := Map.empty\<rparr>"
  have h1: "TrimSpace (GetString ?e1 ''password'') = []"
    by code_simp
  have h2: "TrimSpace (GetString ?e2 ''baseURL'') = []"
    by code_simp
  have k1: "''password'' \<in> set [''baseURL'', ''tenant'', ''domain'', ''userName'', ''password'']"
    and k2: "''baseURL'' \<in> set [''baseURL'', ''tenant'', ''domain'', ''userName'', ''password'']"
    by simp_all
  from missing_setting_stops_before_network [OF k1 h1, of exampleFlags "[]"]
    missing_setting_stops_before_network [OF k2 h2, of exampleFlags "[]"] h1 h2
  show ?thesis by blast
qed

text \<open>
  C7. The authenticator posts the user name joined to the domain as \<open>user@domain\<close>,
  with password and tenant. On an answer with status 200 whose body unmarshals, it
  fails fatally when the token id is empty or made of white space only (every character
  of it is one of tab, line feed, vertical tab, form feed, carriage return, space,
  U+0085 and U+00A0), and otherwise returns \<open>Bearer\<close>, a space and the token id as it
  came.
\<close>

theorem authenticator_bearer_token:
  assumes "ParseURL e (URL (tokenRequest e))"
  shows "(\<exists>req. requests (snd (getBearerToken e fl tr)) = requests tr @ [req]
            \<and> Method req = ''POST''
            \<and> URL req = GetString e ''baseURL'' @ ''/identity/api/tokens''
            \<and> ReqBody req = JSON \<lparr>Username = GetString e ''userName'' @ ''@'' @ GetString e ''domain'',
                                    Password = GetString e ''password'',
                                    Tenant = GetString e ''tenant''\<rparr>)
     \<and> (Do e (length (requests tr)) (tokenRequest e) = (Some resp, None) \<and> StatusCode resp = 200
          \<and> Unmarshal e (Body resp) = Inr g \<longrightarrow>
        fst (getBearerToken e fl tr) =
          (if list_all isSpace (ID g) then Fatal (ZeroLengthString ''bearerToken'')
           else Ok (''Bearer '' @ ID g)))"
proof -
  have "requests (snd (getBearerToken e fl tr)) = requests tr @ [tokenRequest e]"
    unfolding getBearerToken_run [OF assms] by (simp add: requests_append)
  moreover have "Method (tokenRequest e) = ''POST''"
    "URL (tokenRequest e) = GetString e ''baseURL'' @ ''/identity/api/tokens''"
    "ReqBody (tokenRequest e) = JSON \<lparr>Username = GetString e ''userName'' @ ''@'' @ GetString e ''domain'',
                                    Password = GetString e ''password'',
                                    Tenant = GetString e ''tenant''\<rparr>"
    by (simp_all add: tokenRequest_def)
  ultimately have a: "\<exists>req. requests (snd (getBearerToken e fl tr)) = requests tr @ [req]
            \<and> Method req = ''POST''
            \<and> URL req = GetString e ''baseURL'' @ ''/identity/api/tokens''
            \<and> ReqBody req = JSON \<lparr>Username = GetString e ''userName'' @ ''@'' @ GetString e ''domain'',
                                    Password = GetString e ''password'',
                                    Tenant = GetString e ''tenant''\<rparr>"
    by blast
  have b: "Do e (length (requests tr)) (tokenRequest e) = (Some resp, None) \<and> StatusCode resp = 200
          \<and> Unmarshal e (Body resp) = Inr g \<longrightarrow>
        fst (getBearerToken e fl tr) =
          (if list_all isSpace (ID g) then Fatal (ZeroLengthString ''bearerToken'')
           else Ok (''Bearer '' @ ID g))"
    unfolding getBearerToken_run [OF assms] TrimSpace_Nil_iff [symmetric] by simp
  from a b show ?thesis by blast
qed

theorem authenticator_bearer_token_witness:
  "(\<exists>req. requests (snd (getBearerToken (tokenEnv ''t0k3n'') exampleFlags [])) = [req]
      \<and> Method req = ''POST''
      \<and> URL req = ''https://vra.example.org/identity/api/tokens''
      \<and> ReqBody req = JSON \<lparr>Username = ''anna@example.org'', Password = ''secret'', Tenant = ''acme''\<rparr>)
   \<and> fst (getBearerToken (tokenEnv ''t0k3n'') exampleFlags []) = Ok ''Bearer t0k3n''
   \<and> fst (getBearerToken (tokenEnv '' t0k3n '') exampleFlags []) = Ok ''Bearer  t0k3n ''
   \<and> fst (getBearerToken (tokenEnv []) exampleFlags []) = Fatal (ZeroLengthString ''bearerToken'')
   \<and> fst (getBearerToken (tokenEnv [CHR 0x20, CHR 0x09, CHR 0x0A]) exampleFlags [])
       = Fatal (ZeroLengthString ''bearerToken'')"
proof -
  let ?resp = "\<lparr>StatusCode = 200, Header = Map.empty, Body = tokenBody\<rparr>"
  have u: "ParseURL (tokenEnv tok) (URL (tokenRequest (tokenEnv tok)))" for tok
    by (simp add: tokenEnv_def exampleEnv_def)
  have d: "Do (tokenEnv tok) (length (requests [])) (tokenRequest (tokenEnv tok)) = (Some ?resp, None)" for tok
    by (simp add: tokenEnv_def exampleEnv_def prepared_def replied_def)
  have m: "Unmarshal (tokenEnv tok) (Body ?resp) = Inr \<lparr>Expires = [], ID = tok, Tenant' = []\<rparr>" for tok
    by (simp add: tokenEnv_def)
  have s: "GetString (tokenEnv ''t0k3n'') ''baseURL'' = ''https://vra.example.org''"
    "GetString (tokenEnv ''t0k3n'') ''userName'' = ''anna''"
    "GetString (tokenEnv ''t0k3n'') ''domain'' = ''example.org''"
    "GetString (tokenEnv ''t0k3n'') ''password'' = ''secret''"
    "GetString (tokenEnv ''t0k3n'') ''tenant'' = ''acme''"
    by code_simp+
  have t: "\<not> list_all isSpace ''t0k3n''" "\<not> list_all isSpace '' t0k3n ''" "list_all isSpace []"
    "list_all isSpace [CHR 0x20, CHR 0x09, CHR 0x0A]"
    by code_simp+
  from authenticator_bearer_token [OF u, of "''t0k3n''" exampleFlags "[]" ?resp]
    authenticator_bearer_token [OF u, of "'' t0k3n ''" exampleFlags "[]" ?resp]
    authenticator_bearer_token [OF u, of "[]" exampleFlags "[]" ?resp]
    authenticator_bearer_token [OF u, of "[CHR 0x20, CHR 0x09, CHR 0x0A]" exampleFlags "[]" ?resp]
    d m t
  show ?thesis by (simp add: s)
qed

text \<open>
  C5. Under dry-run, when validateConfig and steps 1 to 4 succeed, the run ends with exit
  status 0 having sent exactly the token request and the two listing requests (both
  GET) and slept not at all: neither sendSnapshotRequest nor getRequestResultState
  runs, so no snapshot request and no poll is issued.
\<close>

theorem dry_run_skips_submission_and_polling:
  assumes "dryRun fl"
    and "preparation e fl tr = (Ok (tok, vm, act), tr1)"
  shows "\<exists>r tr'. Run e fl tr = Some (r, tr') \<and> r = Ok () \<and> exitStatus r = Some 0
           \<and> io tr' = io tr @ [Sent (tokenRequest e), Sent (resourcesRequest e tok),
                                 Sent (actionsRequest e tok vm)]
           \<and> Method (resourcesRequest e tok) = ''GET'' \<and> Method (actionsRequest e tok vm) = ''GET''
           \<and> URL (tokenRequest e) = GetString e ''baseURL'' @ ''/identity/api/tokens''"
proof -
  have "\<exists>tr'. Run e fl tr = Some (Ok (), tr') \<and> io tr' = io tr1"
    unfolding Run_after_preparation [OF assms(2)] using assms(1)
    by (simp add: thenRun_def traceInfo_def Println_def ret_def lift_def io_append)
  with preparation_Ok [OF assms(2)] show ?thesis
    by (auto simp: resourcesRequest_def actionsRequest_def tokenRequest_def)
qed

theorem dry_run_skips_submission_and_polling_witness:
  "dryRun (exampleFlags\<lparr>dryRun := True\<rparr>)
   \<and> fst (preparation (exampleEnv prepared refused) (exampleFlags\<lparr>dryRun := True\<rparr>) [])
       = Ok (''Bearer t0k3n'', ''2a415ba9-81f5-4bff-b35f-bccfd5587165'', ''fcf490d5-a7e9-4640-be83-ac74d4484c91'')
   \<and> (\<exists>tr'. Run (exampleEnv prepared refused) (exampleFlags\<lparr>dryRun := True\<rparr>) [] = Some (Ok (), tr')
         \<and> io tr' = [Sent (tokenRequest (exampleEnv prepared refused)),
                      Sent (resourcesRequest (exampleEnv prepared refused) ''Bearer t0k3n''),
                      Sent (actionsRequest (exampleEnv prepared refused) ''Bearer t0k3n''
                              ''2a415ba9-81f5-4bff-b35f-bccfd5587165'')])"
proof -
  let ?e = "exampleEnv prepared refused"
  let ?fl = "exampleFlags\<lparr>dryRun := True\<rparr>"
  have d: "dryRun ?fl" by simp
  have p: "fst (preparation ?e ?fl [])
       = Ok (''Bearer t0k3n'', ''2a415ba9-81f5-4bff-b35f-bccfd5587165'', ''fcf490d5-a7e9-4640-be83-ac74d4484c91'')"
    by code_simp
  then obtain tr1 where q: "preparation ?e ?fl []
       = (Ok (''Bearer t0k3n'', ''2a415ba9-81f5-4bff-b35f-bccfd5587165'', ''fcf490d5-a7e9-4640-be83-ac74d4484c91''), tr1)"
    by (cases "preparation ?e ?fl []") simp
  from dry_run_skips_submission_and_polling [OF d q] d p show ?thesis
    by auto
qed

text \<open>
  C3. The request submitter takes exactly status 201 for success. On an answer with
  another status it ends the run with a non-zero exit status (1 with the title of the
  error page, 2 when the body has none), and the run that got there sends nothing and
  sleeps no more after the submission: no poll occurs. On 201 it returns the Location
  header, which the run then polls, and fails fatally when the header is absent, empty
  or white space.
\<close>

theorem submitter_expects_201:
  assumes "ParseURL e (URL (snapshotRequest e fl tok vm act))"
    and "Do e (length (requests tr1)) (snapshotRequest e fl tok vm act) = (Some resp, None)"
  shows "(StatusCode resp \<noteq> 201 \<longrightarrow>
            (exitStatus (fst (sendSnapshotRequest e fl tok vm act tr1)) = Some 1
               \<or> exitStatus (fst (sendSnapshotRequest e fl tok vm act tr1)) = Some 2)
            \<and> (preparation e fl tr = (Ok (tok, vm, act), tr1) \<and> \<not> dryRun fl \<longrightarrow>
                 (\<exists>r tr'. Run e fl tr = Some (r, tr')
                    \<and> (exitStatus r = Some 1 \<or> exitStatus r = Some 2)
                    \<and> io tr' = io tr1 @ [Sent (snapshotRequest e fl tok vm act)])))
     \<and> (StatusCode resp = 201 \<longrightarrow>
            fst (sendSnapshotRequest e fl tok vm act tr1) =
              (if TrimSpace (Header_Get resp ''Location'') = []
               then Fatal (ZeroLengthString ''Resource Action Request URL'')
               else Ok (Header_Get resp ''Location''))
            \<and> (preparation e fl tr = (Ok (tok, vm, act), tr1) \<and> \<not> dryRun fl
                  \<and> TrimSpace (Header_Get resp ''Location'') \<noteq> [] \<longrightarrow>
                 Run e fl tr =
                   thenRun (getRequestResultState e fl tok (Header_Get resp ''Location''))
                     (\<lambda>_. lift (traceInfo fl ''Bye from makeSnapshot''))
                     (snd (sendSnapshotRequest e fl tok vm act tr1))))"
proof -
  note s = sendSnapshotRequest_run [OF assms(1), of tr1, unfolded assms(2) prod.case option.case]
  obtain r5 tr5 where r5: "sendSnapshotRequest e fl tok vm act tr1 = (r5, tr5)"
    by (cases "sendSnapshotRequest e fl tok vm act tr1")
  from r5 s have t5: "io tr5 = io tr1 @ [Sent (snapshotRequest e fl tok vm act)]"
    by (auto simp: io_append)
  have a: "exitStatus r5 = Some 1 \<or> exitStatus r5 = Some 2" if "StatusCode resp \<noteq> 201"
    using that r5 s by (auto split: if_splits)
  have b: "\<exists>r tr'. Run e fl tr = Some (r, tr')
                    \<and> (exitStatus r = Some 1 \<or> exitStatus r = Some 2)
                    \<and> io tr' = io tr1 @ [Sent (snapshotRequest e fl tok vm act)]"
    if "StatusCode resp \<noteq> 201" and p: "preparation e fl tr = (Ok (tok, vm, act), tr1)"
      and "\<not> dryRun fl"
  proof -
    from a [OF that(1)] have "Run e fl tr = Some (case r5 of Fatal x \<Rightarrow> Fatal x | Panic y \<Rightarrow> Panic y, tr5)
        \<and> exitStatus (case r5 of Fatal x \<Rightarrow> (Fatal x :: unit result) | Panic y \<Rightarrow> Panic y) = exitStatus r5"
      unfolding Run_after_preparation [OF p] using that(3)
      by (cases r5) (simp_all add: thenRun_def lift_def r5)
    with a [OF that(1)] t5 show ?thesis by auto
  qed
  have c: "r5 = (if TrimSpace (Header_Get resp ''Location'') = []
               then Fatal (ZeroLengthString ''Resource Action Request URL'')
               else Ok (Header_Get resp ''Location''))" if "StatusCode resp = 201"
    using that r5 s by auto
  have d: "Run e fl tr =
                   thenRun (getRequestResultState e fl tok (Header_Get resp ''Location''))
                     (\<lambda>_. lift (traceInfo fl ''Bye from makeSnapshot'')) tr5"
    if "StatusCode resp = 201" and p: "preparation e fl tr = (Ok (tok, vm, act), tr1)"
      and "\<not> dryRun fl" and "TrimSpace (Header_Get resp ''Location'') \<noteq> []"
    unfolding Run_after_preparation [OF p] using that(3,4) c [OF that(1)]
    by (simp add: thenRun_def lift_def r5)
  from a b c d r5 show ?thesis by auto
qed


theorem submitter_expects_201_witness:
  "(\<exists>r tr'. Run (exampleEnv (prepared @ [replied 500 ''<html><h1>Internal Server Error</h1></html>'']) refused)
              exampleFlags [] = Some (r, tr')
      \<and> (exitStatus r = Some 1 \<or> exitStatus r = Some 2)
      \<and> length (io tr') = 4 \<and> (\<forall>n. Slept n \<notin> set tr'))
   \<and> fst (sendSnapshotRequest (exampleEnv [created ''https://vra.example.org/requests/7''] refused)
            exampleFlags ''Bearer t0k3n'' ''vm-1'' ''act-1'' []) = Ok ''https://vra.example.org/requests/7''
   \<and> fst (sendSnapshotRequest (exampleEnv [created ''  ''] refused)
            exampleFlags ''Bearer t0k3n'' ''vm-1'' ''act-1'' [])
       = Fatal (ZeroLengthString ''Resource Action Request URL'')"
proof -
  let ?e = "exampleEnv (prepared @ [replied 500 ''<html><h1>Internal Server Error</h1></html>'']) refused"
  let ?tok = "''Bearer t0k3n''" and ?vm = "''2a415ba9-81f5-4bff-b35f-bccfd5587165''"
    and ?act = "''fcf490d5-a7e9-4640-be83-ac74d4484c91''"
  let ?resp = "\<lparr>StatusCode = 500, Header = Map.empty, Body = ''<html><h1>Internal Server Error</h1></html>''\<rparr>"
  have u: "ParseURL (exampleEnv as d) x" for as d x
    by (simp add: exampleEnv_def)
  have "fst (preparation ?e exampleFlags []) = Ok (?tok, ?vm, ?act)"
    by code_simp
  then obtain tr1 where p: "preparation ?e exampleFlags [] = (Ok (?tok, ?vm, ?act), tr1)"
    by (cases "preparation ?e exampleFlags []") simp
  from preparation_Ok [OF p] have n: "length (requests tr1) = 3" and i: "length (io tr1) = 3"
    by simp_all
  have d: "Do ?e (length (requests tr1)) (snapshotRequest ?e exampleFlags ?tok ?vm ?act) = (Some ?resp, None)"
    by (simp add: n exampleEnv_def prepared_def replied_def)
  have f: "\<not> dryRun exampleFlags" by (simp add: exampleFlags_def)
  from submitter_expects_201 [OF u d, of "[]"] p f
  obtain r tr' where r: "Run ?e exampleFlags [] = Some (r, tr')"
    "exitStatus r = Some 1 \<or> exitStatus r = Some 2"
    "io tr' = io tr1 @ [Sent (snapshotRequest ?e exampleFlags ?tok ?vm ?act)]"
    by auto
  have io_set: "Slept k \<in> set t \<Longrightarrow> Slept k \<in> set (io t)" for k t
    by (induction t rule: io.induct) auto
  from preparation_Ok [OF p] r(3) have "\<forall>k. Slept k \<notin> set (io tr')" by auto
  with io_set have ns: "\<forall>k. Slept k \<notin> set tr'" by blast
  from r i ns have w1: "\<exists>r tr'. Run ?e exampleFlags [] = Some (r, tr')
      \<and> (exitStatus r = Some 1 \<or> exitStatus r = Some 2)
      \<and> length (io tr') = 4 \<and> (\<forall>n. Slept n \<notin> set tr')"
    by auto
  let ?e2 = "exampleEnv [created ''https://vra.example.org/requests/7''] refused"
  let ?r2 = "\<lparr>StatusCode = 201, Header = [''Location'' \<mapsto> ''https://vra.example.org/requests/7''], Body = []\<rparr>"
  have d2: "Do ?e2 (length (requests [])) (snapshotRequest ?e2 exampleFlags ?tok ''vm-1'' ''act-1'') = (Some ?r2, None)"
    by (simp add: exampleEnv_def created_def)
  have l2: "TrimSpace (Header_Get ?r2 ''Location'') \<noteq> []"
    "Header_Get ?r2 ''Location'' = ''https://vra.example.org/requests/7''"
    by code_simp+
  from submitter_expects_201 [OF u d2, of "[]"] l2
  have w2: "fst (sendSnapshotRequest ?e2 exampleFlags ?tok ''vm-1'' ''act-1'' [])
              = Ok ''https://vra.example.org/requests/7''"
    by simp
  let ?e3 = "exampleEnv [created ''  ''] refused"
  let ?r3 = "\<lparr>StatusCode = 201, Header = [''Location'' \<mapsto> ''  ''], Body = []\<rparr>"
  have d3: "Do ?e3 (length (requests [])) (snapshotRequest ?e3 exampleFlags ?tok ''vm-1'' ''act-1'') = (Some ?r3, None)"
    by (simp add: exampleEnv_def created_def)
  have l3: "TrimSpace (Header_Get ?r3 ''Location'') = []"
    by code_simp
  from submitter_expects_201 [OF u d3, of "[]"] l3
  have w3: "fst (sendSnapshotRequest ?e3 exampleFlags ?tok ''vm-1'' ''act-1'' [])
              = Fatal (ZeroLengthString ''Resource Action Request URL'')"
    by simp
  from w1 w2 w3 show ?thesis by blast
qed



text \<open>
  C2, as it is stated, fails. The machine name goes into the pattern unquoted: for the
  machine name \<open>a.c\<close> and a listing whose only entry is named \<open>xyzabc\<close>, step 2
  returns the id of that entry, although the listing has no entry for \<open>a.c\<close> (it has
  one for \<open>abc\<close>, 13 characters into the body).
\<close>

theorem locator_selects_by_name_counterexample:
  "fst (getVirtualMachineResourceID (exampleEnv [replied 200 (exampleListing ''xyzabc'')] refused)
          exampleFlags ''Bearer t0k3n'' ''a.c'' [])
     = Ok ''2a415ba9-81f5-4bff-b35f-bccfd5587165''
   \<and> firstEntry ''a.c'' (exampleListing ''xyzabc'') = None
   \<and> firstEntry ''abc'' (exampleListing ''xyzabc'') = Some 13"
  by code_simp

text \<open>
  C2, amended. For a plain machine name (none of its characters is an operator of the
  pattern syntax) and a listing that arrived with status 200, the resource locator
  selects the leftmost entry for the machine: the text of a virtual-machine catalog
  entry whose name is 3 characters followed by exactly the machine name. It returns the
  36 characters of that entry's id, or fails fatally when they are white space; when the
  listing holds no such entry it fails fatally with the diagnostic that names the
  machine.
\<close>

theorem locator_selects_by_name:
  assumes "plain machine"
    and "ParseURL e (URL (resourcesRequest e token))"
    and "Do e (length (requests tr)) (resourcesRequest e token) = (Some resp, None)"
    and "StatusCode resp = 200"
  shows "fst (getVirtualMachineResourceID e fl token machine tr) =
           (case firstEntry machine (Body resp) of
              None \<Rightarrow> Fatal (ResourceNotFound machine)
            | Some i \<Rightarrow>
                if TrimSpace (entryId (drop i (Body resp))) = [] then Fatal (ZeroLengthString ''machineID'')
                else Ok (entryId (drop i (Body resp))))
     \<and> (firstEntry machine (Body resp) = None \<longrightarrow>
          (\<forall>j\<le>length (Body resp). \<not> resourceEntry machine (drop j (Body resp))))
     \<and> (\<forall>i. firstEntry machine (Body resp) = Some i \<longrightarrow>
          resourceEntry machine (drop i (Body resp))
          \<and> (\<forall>j<i. \<not> resourceEntry machine (drop j (Body resp))))
     \<and> (\<forall>t. resourceEntry machine t \<longrightarrow>
          (\<exists>id ty x rest. t = entryHead @ id @ ty @ x @ machine @ entryTail @ rest
             \<and> id = entryId t \<and> length id = 36 \<and> like entryType ty \<and> length x = 3))"
proof -
  have a: "fst (getVirtualMachineResourceID e fl token machine tr) =
           (case firstEntry machine (Body resp) of
              None \<Rightarrow> Fatal (ResourceNotFound machine)
            | Some i \<Rightarrow>
                if TrimSpace (entryId (drop i (Body resp))) = [] then Fatal (ZeroLengthString ''machineID'')
                else Ok (entryId (drop i (Body resp))))"
    by (rule getVirtualMachineResourceID_listing [OF assms])
  have b: "firstEntry machine (Body resp) = None \<longrightarrow>
          (\<forall>j\<le>length (Body resp). \<not> resourceEntry machine (drop j (Body resp)))"
  proof (intro impI allI)
    fix j
    assume n: "firstEntry machine (Body resp) = None" and j: "j \<le> length (Body resp)"
    from n [unfolded firstEntry_def find_None_iff]
    have "\<not> (\<exists>x. x \<in> set [0..<Suc (length (Body resp))]
                   \<and> resourceEntry machine (drop x (Body resp)))" .
    moreover from j have "j \<in> set [0..<Suc (length (Body resp))]"
      by (simp add: less_Suc_eq_le del: upt_Suc)
    ultimately show "\<not> resourceEntry machine (drop j (Body resp))" by blast
  qed
  have c: "\<forall>i. firstEntry machine (Body resp) = Some i \<longrightarrow>
          resourceEntry machine (drop i (Body resp))
          \<and> (\<forall>j<i. \<not> resourceEntry machine (drop j (Body resp)))"
  proof (intro allI impI)
    fix i
    assume "firstEntry machine (Body resp) = Some i"
    then obtain k where k: "k < length [0..<Suc (length (Body resp))]"
      "resourceEntry machine (drop ([0..<Suc (length (Body resp))] ! k) (Body resp))"
      "i = [0..<Suc (length (Body resp))] ! k"
      "\<forall>j<k. \<not> resourceEntry machine (drop ([0..<Suc (length (Body resp))] ! j) (Body resp))"
      unfolding firstEntry_def find_Some_iff by blast
    from k(1) have ki: "[0..<Suc (length (Body resp))] ! k = k"
      by (metis add_0 length_upt minus_nat.diff_0 nth_upt)
    have "\<And>j. j < k \<Longrightarrow> [0..<Suc (length (Body resp))] ! j = j"
      using k(1) by (metis add_0 length_upt minus_nat.diff_0 nth_upt order_less_trans)
    with k ki show "resourceEntry machine (drop i (Body resp))
          \<and> (\<forall>j<i. \<not> resourceEntry machine (drop j (Body resp)))"
      by auto
  qed
  have d: "\<forall>t. resourceEntry machine t \<longrightarrow>
          (\<exists>id ty x rest. t = entryHead @ id @ ty @ x @ machine @ entryTail @ rest
             \<and> id = entryId t \<and> length id = 36 \<and> like entryType ty \<and> length x = 3)"
    using resourceEntry_parts [of machine] by blast
  from a b c d show ?thesis by blast
qed

theorem locator_selects_by_name_witness:
  "plain ''myvm''
   \<and> firstEntry ''myvm'' (exampleListing ''xyzmyvm'') = Some 13
   \<and> fst (getVirtualMachineResourceID (exampleEnv [replied 200 (exampleListing ''xyzmyvm'')] refused)
          exampleFlags ''Bearer t0k3n'' ''myvm'' [])
       = Ok ''2a415ba9-81f5-4bff-b35f-bccfd5587165''
   \<and> firstEntry ''myvm'' (exampleListing ''xyzmyvm2'') = None
   \<and> fst (getVirtualMachineResourceID (exampleEnv [replied 200 (exampleListing ''xyzmyvm2'')] refused)
          exampleFlags ''Bearer t0k3n'' ''myvm'' [])
       = Fatal (ResourceNotFound ''myvm'')"
proof -
  let ?e1 = "exampleEnv [replied 200 (exampleListing ''xyzmyvm'')] refused"
  let ?r1 = "\<lparr>StatusCode = 200, Header = Map.empty, Body = exampleListing ''xyzmyvm''\<rparr>"
  let ?e2 = "exampleEnv [replied 200 (exampleListing ''xyzmyvm2'')] refused"
  let ?r2 = "\<lparr>StatusCode = 200, Header = Map.empty, Body = exampleListing ''xyzmyvm2''\<rparr>"
  have p: "plain ''myvm''" by code_simp
  have u: "ParseURL (exampleEnv as d) x" for as d x
    by (simp add: exampleEnv_def)
  have d: "Do (exampleEnv [replied 200 b] refused) (length (requests [])) r
             = (Some \<lparr>StatusCode = 200, Header = Map.empty, Body = b\<rparr>, None)" for b r
    by (simp add: exampleEnv_def replied_def)
  have f1: "firstEntry ''myvm'' (exampleListing ''xyzmyvm'') = Some 13" by code_simp
  have i1: "entryId (drop 13 (exampleListing ''xyzmyvm'')) = ''2a415ba9-81f5-4bff-b35f-bccfd5587165''"
    by code_simp
  have s1: "TrimSpace ''2a415ba9-81f5-4bff-b35f-bccfd5587165'' \<noteq> []" by code_simp
  have f2: "firstEntry ''myvm'' (exampleListing ''xyzmyvm2'') = None" by code_simp
  from locator_selects_by_name [where e = ?e1 and resp = ?r1 and fl = exampleFlags and tr = "[]"
      and token = "''Bearer t0k3n''", OF p u d] f1 i1 s1
  have w1: "fst (getVirtualMachineResourceID ?e1 exampleFlags ''Bearer t0k3n'' ''myvm'' [])
       = Ok ''2a415ba9-81f5-4bff-b35f-bccfd5587165''"
    by simp
  from locator_selects_by_name [where e = ?e2 and resp = ?r2 and fl = exampleFlags and tr = "[]"
      and token = "''Bearer t0k3n''", OF p u d] f2
  have w2: "fst (getVirtualMachineResourceID ?e2 exampleFlags ''Bearer t0k3n'' ''myvm'' [])
       = Fatal (ResourceNotFound ''myvm'')"
    by simp
  from p f1 w1 f2 w2 show ?thesis by blast
qed




text \<open>
  C9. Every error is to end the run at once. A transport error in step 3 or in the poll
  of step 6 does not: it is logged with \<^verbatim>\<open>log.Println\<close>, the step goes on and
  panics on the nil response; in step 2 the same error is fatal at once.
\<close>

theorem transport_error_not_fatal_in_steps_3_and_6:
  "getSnapshotResourceActionID (exampleEnv [] refused) exampleFlags ''Bearer t0k3n'' ''vm-1'' []
     = (Panic NilDereference,
        [Sent (actionsRequest (exampleEnv [] refused) ''Bearer t0k3n'' ''vm-1''),
         Logged ''Failure :  dial tcp: connection refused''])
   \<and> poll (exampleEnv [] refused) exampleFlags
        (statusRequest ''Bearer t0k3n'' ''https://vra.example.org/requests/7'') stateProg []
     = (Panic NilDereference,
        [Slept 10, Sent (statusRequest ''Bearer t0k3n'' ''https://vra.example.org/requests/7''),
         Logged ''Failure :  dial tcp: connection refused''])
   \<and> getVirtualMachineResourceID (exampleEnv [] refused) exampleFlags ''Bearer t0k3n'' ''myvm'' []
     = (Fatal (Error ''dial tcp: connection refused''),
        [Sent (resourcesRequest (exampleEnv [] refused) ''Bearer t0k3n'')])"
  by code_simp

end
